theory Spec2Isabelle
  imports Main "HOL-Library.Char_ord" "HOL-Library.List_Lexorder"
begin

section \<open>JavaScript values\<close>

text \<open>
  The resource layer of \<^verbatim>\<open>api-resource.js\<close> handles plain JSON-like data: parameter
  objects, attribute objects and response bodies. A value is a tree; an object is the list of
  its own enumerable properties, in the order in which \<^verbatim>\<open>Object.keys\<close> reports them.
  Numbers are the integers that a JavaScript number holds exactly and that \<^verbatim>\<open>String\<close>
  and \<^verbatim>\<open>JSON.stringify\<close> write with all their decimal digits: the identities and
  counters the layer handles, of a magnitude below \<open>2^53\<close>. Fractions, \<^verbatim>\<open>NaN\<close>, the
  infinities and the exponent form of numbers from \<open>10^21\<close> on are outside the model.

  Every plain object inherits the properties of \<^verbatim>\<open>Object.prototype\<close>. The property
  names of the data (and the identity field of a Resource) are taken not to be among the
  names of these; the lookups by a name that the code fixes, by the name of a cache and by a
  cache key, which is the JSON text of an object, cannot name one. The membership index of
  a Collection is read under identity strings, which can: that lookup is modelled with the
  inherited properties, see \<open>Object_prototype_keys\<close>.
\<close>

datatype jsval =
    JUndefined
  | JNull
  | JBool bool
  | JNum int
  | JStr string
  | JArr "jsval list"
  | JObj "(string \<times> jsval) list"

type_synonym obj = "(string \<times> jsval) list"

subsection \<open>Property order\<close>

text \<open>
  An ordinary object lists its array-index keys first, in ascending numeric order, and then
  its other string keys in the order of their creation. An array index is the canonical
  decimal form of a number below \<open>2^32 - 1\<close>.
\<close>

definition is_digit :: "char \<Rightarrow> bool" where
  "is_digit c = (c \<in> set ''0123456789'')"

definition digit_value :: "char \<Rightarrow> int" where
  "digit_value c = of_char c - 48"

definition parse_index :: "string \<Rightarrow> int" where
  "parse_index s = foldl (\<lambda>n c. 10 * n + digit_value c) 0 s"

definition is_array_index :: "string \<Rightarrow> bool" where
  "is_array_index k =
     (k \<noteq> [] \<and> list_all is_digit k \<and> (k = ''0'' \<or> hd k \<noteq> CHR ''0'')
      \<and> parse_index k < 4294967295)"

definition comes_before :: "string \<Rightarrow> string \<Rightarrow> bool" where
  "comes_before k k' =
     (is_array_index k \<and> (\<not> is_array_index k' \<or> parse_index k < parse_index k'))"

text \<open>
  \<^verbatim>\<open>o[k] = v\<close>: an existing property keeps its place and takes the new value; a new
  property is created at the place its key has in the property order.
\<close>

fun obj_set :: "string \<Rightarrow> 'v \<Rightarrow> (string \<times> 'v) list \<Rightarrow> (string \<times> 'v) list" where
  "obj_set k v [] = [(k, v)]"
| "obj_set k v ((k', v') # ps) =
     (if k' = k then (k, v) # ps
      else if comes_before k k' \<and> k \<notin> fst ` set ps then (k, v) # (k', v') # ps
      else (k', v') # obj_set k v ps)"

text \<open>\<^verbatim>\<open>o[k]\<close>: reading a property that the object does not have gives \<^verbatim>\<open>undefined\<close>.\<close>

definition obj_get :: "obj \<Rightarrow> string \<Rightarrow> jsval" where
  "obj_get ob k = (case map_of ob k of None \<Rightarrow> JUndefined | Some v \<Rightarrow> v)"

text \<open>\<^verbatim>\<open>k in o\<close>, for own properties.\<close>

definition obj_has :: "(string \<times> 'v) list \<Rightarrow> string \<Rightarrow> bool" where
  "obj_has ob k = (k \<in> fst ` set ob)"

definition Object_keys :: "(string \<times> 'v) list \<Rightarrow> string list" where
  "Object_keys ob = map fst ob"

text \<open>
  \<^verbatim>\<open>Object.assign(target, ...sources)\<close>: the sources are taken from left to right, and
  each property of a source is written to the target with \<^verbatim>\<open>target[k] = v\<close>.
\<close>

definition assign_one :: "(string \<times> 'v) list \<Rightarrow> (string \<times> 'v) list \<Rightarrow> (string \<times> 'v) list" where
  "assign_one target source = fold (\<lambda>p. obj_set (fst p) (snd p)) source target"

definition Object_assign :: "obj \<Rightarrow> obj list \<Rightarrow> obj" where
  "Object_assign target sources = fold (\<lambda>s t. assign_one t s) sources target"

subsection \<open>Conversion to strings\<close>

fun show_nat :: "nat \<Rightarrow> string" where
  "show_nat n = (if n < 10 then [''0123456789'' ! n]
                 else show_nat (n div 10) @ [''0123456789'' ! (n mod 10)])"

declare show_nat.simps [simp del]

text \<open>The decimal digits of an integer, as \<^verbatim>\<open>String\<close> writes a number of the model.\<close>

definition show_int :: "int \<Rightarrow> string" where
  "show_int i = (if i < 0 then CHR ''-'' # show_nat (nat (- i)) else show_nat (nat i))"

fun join :: "string \<Rightarrow> string list \<Rightarrow> string" where
  "join sep [] = []"
| "join sep [s] = s"
| "join sep (s # t # ss) = s @ sep @ join sep (t # ss)"

text \<open>
  \<^verbatim>\<open>String(v)\<close>. Inside an array, \<^verbatim>\<open>null\<close> and \<^verbatim>\<open>undefined\<close> elements are joined as
  empty strings.
\<close>

fun js_String :: "jsval \<Rightarrow> string"
  and js_String_elems :: "jsval list \<Rightarrow> string list" where
  "js_String JUndefined = ''undefined''"
| "js_String JNull = ''null''"
| "js_String (JBool b) = (if b then ''true'' else ''false'')"
| "js_String (JNum n) = show_int n"
| "js_String (JStr s) = s"
| "js_String (JArr xs) = join '','' (js_String_elems xs)"
| "js_String (JObj ps) = ''[object Object]''"
| "js_String_elems [] = []"
| "js_String_elems (x # xs) =
     (if x = JUndefined \<or> x = JNull then [] else js_String x) # js_String_elems xs"

text \<open>The truth value of a value in a condition.\<close>

fun truthy :: "jsval \<Rightarrow> bool" where
  "truthy JUndefined = False"
| "truthy JNull = False"
| "truthy (JBool b) = b"
| "truthy (JNum n) = (n \<noteq> 0)"
| "truthy (JStr s) = (s \<noteq> [])"
| "truthy (JArr xs) = True"
| "truthy (JObj ps) = True"

subsection \<open>\<^verbatim>\<open>JSON.stringify\<close>\<close>

definition hex_digit :: "nat \<Rightarrow> char" where
  "hex_digit n = ''0123456789abcdef'' ! (n mod 16)"

definition escape_char :: "char \<Rightarrow> string" where
  "escape_char c =
     (if c = CHR 0x22 then [CHR 0x5C, CHR 0x22]
      else if c = CHR 0x5C then [CHR 0x5C, CHR 0x5C]
      else if c = CHR 0x08 then [CHR 0x5C, CHR ''b'']
      else if c = CHR 0x0C then [CHR 0x5C, CHR ''f'']
      else if c = CHR 0x0A then [CHR 0x5C, CHR ''n'']
      else if c = CHR 0x0D then [CHR 0x5C, CHR ''r'']
      else if c = CHR 0x09 then [CHR 0x5C, CHR ''t'']
      else if (of_char c :: nat) < 32
        then [CHR 0x5C, CHR ''u'', CHR ''0'', CHR ''0'',
              hex_digit (of_char c div 16), hex_digit (of_char c)]
      else [c])"

definition quote :: "string \<Rightarrow> string" where
  "quote s = CHR 0x22 # concat (map escape_char s) @ [CHR 0x22]"

text \<open>
  The serialisation of a value; \<open>None\<close> stands for the result \<^verbatim>\<open>undefined\<close>. A property
  whose value serialises to \<^verbatim>\<open>undefined\<close> is left out of its object, and such an element
  of an array is written \<^verbatim>\<open>null\<close>.
\<close>

fun serialize :: "jsval \<Rightarrow> string option"
  and serialize_elems :: "jsval list \<Rightarrow> string list"
  and serialize_props :: "(string \<times> jsval) list \<Rightarrow> string list" where
  "serialize JUndefined = None"
| "serialize JNull = Some ''null''"
| "serialize (JBool b) = Some (if b then ''true'' else ''false'')"
| "serialize (JNum n) = Some (show_int n)"
| "serialize (JStr s) = Some (quote s)"
| "serialize (JArr xs) = Some (''['' @ join '','' (serialize_elems xs) @ '']'')"
| "serialize (JObj ps) = Some (''{'' @ join '','' (serialize_props ps) @ ''}'')"
| "serialize_elems [] = []"
| "serialize_elems (x # xs) =
     (case serialize x of None \<Rightarrow> ''null'' | Some s \<Rightarrow> s) # serialize_elems xs"
| "serialize_props [] = []"
| "serialize_props (p # ps) =
     (case serialize (snd p) of
        None \<Rightarrow> serialize_props ps
      | Some s \<Rightarrow> (quote (fst p) @ '':'' @ s) # serialize_props ps)"

definition JSON_stringify :: "jsval \<Rightarrow> jsval" where
  "JSON_stringify v = (case serialize v of None \<Rightarrow> JUndefined | Some s \<Rightarrow> JStr s)"


subsection \<open>Values used as objects\<close>

text \<open>
  An array read as an object has its indices as properties; \<^verbatim>\<open>length\<close> is a property
  of it too, but not an enumerable one.
\<close>

definition array_props :: "'v list \<Rightarrow> (string \<times> 'v) list" where
  "array_props xs = zip (map (\<lambda>i. show_nat i) [0 ..< length xs]) xs"

definition own_props :: "jsval \<Rightarrow> obj" where
  "own_props v = (case v of JObj ps \<Rightarrow> ps | JArr xs \<Rightarrow> array_props xs | _ \<Rightarrow> [])"

definition is_object :: "jsval \<Rightarrow> bool" where
  "is_object v = (case v of JObj ps \<Rightarrow> True | JArr xs \<Rightarrow> True | _ \<Rightarrow> False)"

definition has_prop :: "jsval \<Rightarrow> string \<Rightarrow> bool" where
  "has_prop v k =
     (case v of JArr xs \<Rightarrow> obj_has (array_props xs) k \<or> k = ''length''
      | _ \<Rightarrow> obj_has (own_props v) k)"

definition get_prop :: "jsval \<Rightarrow> string \<Rightarrow> jsval" where
  "get_prop v k =
     (case v of
        JArr xs \<Rightarrow> if k = ''length'' then JNum (int (length xs)) else obj_get (array_props xs) k
      | _ \<Rightarrow> obj_get (own_props v) k)"

text \<open>
  \<^verbatim>\<open>v[k] = x\<close> for a property that \<open>v\<close> has. Writing to an array its own length,
  the one write to \<^verbatim>\<open>length\<close> that occurs, leaves the array as it is.
\<close>

definition set_prop :: "jsval \<Rightarrow> string \<Rightarrow> jsval \<Rightarrow> jsval" where
  "set_prop v k x =
     (case v of
        JObj ps \<Rightarrow> JObj (obj_set k x ps)
      | JArr xs \<Rightarrow> if obj_has (array_props xs) k then JArr (xs[nat (parse_index k) := x]) else JArr xs
      | _ \<Rightarrow> v)"

subsection \<open>Deep equality\<close>

text \<open>
  \<^verbatim>\<open>isEqual\<close> of lodash on these values: arrays are equal when they are equal element by
  element, objects when they have the same number of properties and each property of the
  first is a property of the second with an equal value.
\<close>

fun isEqual :: "jsval \<Rightarrow> jsval \<Rightarrow> bool"
  and isEqual_elems :: "jsval list \<Rightarrow> jsval list \<Rightarrow> bool"
  and isEqual_props :: "(string \<times> jsval) list \<Rightarrow> (string \<times> jsval) list \<Rightarrow> bool" where
  "isEqual JUndefined b = (b = JUndefined)"
| "isEqual JNull b = (b = JNull)"
| "isEqual (JBool x) b = (b = JBool x)"
| "isEqual (JNum x) b = (b = JNum x)"
| "isEqual (JStr x) b = (b = JStr x)"
| "isEqual (JArr xs) b = (case b of JArr ys \<Rightarrow> isEqual_elems xs ys | _ \<Rightarrow> False)"
| "isEqual (JObj ps) b =
     (case b of JObj qs \<Rightarrow> length ps = length qs \<and> isEqual_props ps qs | _ \<Rightarrow> False)"
| "isEqual_elems [] ys = (ys = [])"
| "isEqual_elems (x # xs) ys =
     (case ys of [] \<Rightarrow> False | y # ys' \<Rightarrow> isEqual x y \<and> isEqual_elems xs ys')"
| "isEqual_props [] qs = True"
| "isEqual_props (p # ps) qs =
     (case map_of qs (fst p) of
        None \<Rightarrow> False
      | Some v' \<Rightarrow> isEqual (snd p) v' \<and> isEqual_props ps qs)"


section \<open>The cache key of a Resource\<close>

text \<open>
  \<^verbatim>\<open>Resource.__cacheKey(...params)\<close>, for a resource whose identity field is \<open>idKey\<close>:
  the parameter objects are merged, the keys of the merge are sorted, each key is put into a
  one-property object (the identity field with its value in string form), these are merged
  in the sorted order, and the result is serialised.
\<close>

definition identity_form :: "string \<Rightarrow> string \<Rightarrow> jsval \<Rightarrow> jsval" where
  "identity_form idKey paramKey v = (if paramKey = idKey then JStr (js_String v) else v)"

definition cacheKey_entry :: "string \<Rightarrow> obj \<Rightarrow> string \<Rightarrow> obj" where
  "cacheKey_entry idKey allParams paramKey =
     [(paramKey, identity_form idKey paramKey (obj_get allParams paramKey))]"

definition cacheKey :: "string \<Rightarrow> obj list \<Rightarrow> jsval" where
  "cacheKey idKey params =
     (let allParams = Object_assign [] params
      in JSON_stringify
           (JObj (Object_assign []
              (map (cacheKey_entry idKey allParams) (sort (Object_keys allParams))))))"

section \<open>Models, Collections and the Resource\<close>

type_synonym ref = nat
type_synonym handle = nat

datatype error = TypeError string

text \<open>How a promise has been settled.\<close>

datatype settle = Resolved jsval | Rejected jsval

text \<open>What the transport client answers: a response object, or an error value.\<close>

datatype client_result = Success obj | Failure jsval

datatype severity = Debug | Error

datatype log_entry =
    LogError jsval
  | Logging severity string jsval

text \<open>
  A \<^verbatim>\<open>Model\<close>. The field \<open>priv_url\<close> is the property \<^verbatim>\<open>_url\<close>; \<open>promises\<close> holds
  the handles of the promises that the asynchronous methods have created.
\<close>

record Model =
  attributes :: obj
  getParams :: obj
  priv_url :: jsval
  synced :: bool
  new :: bool
  deleted :: bool
  promises :: "handle list"

text \<open>
  A \<^verbatim>\<open>Collection\<close> refers to its Models; \<open>model_map\<close>, \<open>priv_url\<close>, \<open>priv_synced\<close> and
  \<open>priv_new\<close> are the properties \<^verbatim>\<open>_model_map\<close>, \<^verbatim>\<open>_url\<close>, \<^verbatim>\<open>_synced\<close> and
  \<^verbatim>\<open>_new\<close>.
\<close>

record Collection =
  getParams :: obj
  models :: "ref list"
  model_map :: "string \<rightharpoonup> ref"
  priv_url :: jsval
  priv_synced :: bool
  priv_new :: bool
  metadata :: "obj option"
  promises :: "handle list"

text \<open>
  A \<^verbatim>\<open>Resource\<close> with its two caches: from the name of a cache to the cache, which maps
  cache keys to Models (or to Collections).
\<close>

record Resource =
  name :: string
  idKey :: string
  useContentCacheKey :: bool
  models :: "string \<rightharpoonup> (string \<rightharpoonup> ref)"
  collections :: "string \<rightharpoonup> (string \<rightharpoonup> ref)"

text \<open>
  The state of the program: the Model objects by reference, the Resource, how each promise
  has been settled so far, the requests given to the transport client and the log, in the
  order of their occurrence. The table of URL functions \<^verbatim>\<open>kolibri.urls\<close> and the
  \<^verbatim>\<open>contentCacheKey\<close> of the plugin data come from outside this file and are parameters.
\<close>

record world =
  heap :: "ref \<Rightarrow> Model"
  next_ref :: ref
  resource :: Resource
  settled :: "handle \<rightharpoonup> settle"
  next_handle :: handle
  calls :: "obj list"
  log :: "log_entry list"
  urls :: "string \<Rightarrow> jsval \<Rightarrow> jsval"
  contentCacheKey :: jsval

subsection \<open>Model: accessors and \<^verbatim>\<open>set\<close>\<close>

definition Model_id :: "string \<Rightarrow> Model \<Rightarrow> jsval" where
  "Model_id idk m = obj_get (attributes m) idk"

text \<open>\<^verbatim>\<open>cloneDeep\<close> of a value is the value.\<close>

definition Model_data :: "Model \<Rightarrow> jsval" where
  "Model_data m = JObj (attributes m)"

text \<open>
  \<^verbatim>\<open>Model.set(attributes)\<close> returns the object of the caller as the call leaves it, and
  the Model. The operator \<^verbatim>\<open>in\<close> raises a TypeError on a value that is not an object.
\<close>

definition Model_set :: "string \<Rightarrow> jsval \<Rightarrow> Model \<Rightarrow> error + (jsval \<times> Model)" where
  "Model_set idk attrs m =
     (if \<not> truthy attrs then Inr (attrs, m)
      else if \<not> is_object attrs then Inl (TypeError ''right-hand side of in is not an object'')
      else
        let attrs' =
              (if has_prop attrs idk \<and> truthy (get_prop attrs idk)
               then set_prop attrs idk (JStr (js_String (get_prop attrs idk)))
               else attrs)
        in Inr (attrs', m\<lparr>attributes := assign_one (attributes m) (own_props attrs')\<rparr>))"

definition Model_constructor :: "string \<Rightarrow> jsval \<Rightarrow> obj \<Rightarrow> jsval \<Rightarrow> error + (jsval \<times> Model)" where
  "Model_constructor idk data gp u =
     (if \<not> truthy data then Inl (TypeError ''data must be defined'')
      else if \<not> is_object data then Inl (TypeError ''data must be an object'')
      else if length (Object_keys (own_props data)) = 0
        then Inl (TypeError ''data must be instantiated with some data'')
      else
        case Model_set idk data
               \<lparr>attributes = [], Model.getParams = [], Model.priv_url = JUndefined,
                synced = False, new = False, deleted = False, Model.promises = []\<rparr> of
          Inl e \<Rightarrow> Inl e
        | Inr (data', m) \<Rightarrow>
            Inr (data', m\<lparr>Model.getParams := gp, Model.priv_url := u, synced := False,
                          new := True, Model.promises := []\<rparr>))"

definition Model_url :: "world \<Rightarrow> Model \<Rightarrow> jsval" where
  "Model_url w m =
     (if truthy (Model.priv_url m) then Model.priv_url m
      else urls w (name (resource w) @ ''_detail'') (Model_id (idKey (resource w)) m))"

definition collectionUrl :: "world \<Rightarrow> jsval" where
  "collectionUrl w = urls w (name (resource w) @ ''_list'') JUndefined"

subsection \<open>Collection: the aggregate flags\<close>

text \<open>The getters and the setters of \<^verbatim>\<open>synced\<close> and of \<^verbatim>\<open>new\<close>.\<close>

definition Collection_synced :: "Collection \<Rightarrow> world \<Rightarrow> bool" where
  "Collection_synced c w =
     foldl (\<lambda>synced model. synced \<and> Model.synced (heap w model)) (priv_synced c)
       (Collection.models c)"

definition Collection_set_synced :: "bool \<Rightarrow> Collection \<times> world \<Rightarrow> Collection \<times> world" where
  "Collection_set_synced val cw =
     (let c = (fst cw)\<lparr>priv_synced := val\<rparr>; w = snd cw
      in if val
         then (c, w\<lparr>heap := fold (\<lambda>model h. h(model := (h model)\<lparr>synced := True\<rparr>))
                               (Collection.models c) (heap w)\<rparr>)
         else (c, w))"

definition Collection_new :: "Collection \<Rightarrow> world \<Rightarrow> bool" where
  "Collection_new c w =
     foldl (\<lambda>isNew model. isNew \<and> Model.new (heap w model)) (priv_new c)
       (Collection.models c)"

definition Collection_set_new :: "bool \<Rightarrow> Collection \<times> world \<Rightarrow> Collection \<times> world" where
  "Collection_set_new val cw =
     (let c = (fst cw)\<lparr>priv_new := val\<rparr>; w = snd cw
      in if \<not> val
         then (c, w\<lparr>heap := fold (\<lambda>model h. h(model := (h model)\<lparr>new := False\<rparr>))
                               (Collection.models c) (heap w)\<rparr>)
         else (c, w))"


subsection \<open>The caches of the Resource\<close>

definition cacheName :: "jsval \<Rightarrow> string" where
  "cacheName endpointName =
     (if truthy endpointName then ''endpoint-'' @ js_String endpointName else ''default'')"

text \<open>
  \<^verbatim>\<open>__getCache\<close> creates the cache of that name when there is none: \<open>getCache_table\<close>
  is the table of caches after the call and \<open>getCache\<close> the cache that the call returns.
  The tables and the caches are plain objects, read here as maps: the name of a cache is
  \<^verbatim>\<open>default\<close> or begins with \<^verbatim>\<open>endpoint-\<close>, and a cache key is the JSON text of an
  object and begins with a brace, so that no lookup finds an inherited property.
\<close>

definition getCache :: "(string \<rightharpoonup> (string \<rightharpoonup> ref)) \<Rightarrow> jsval \<Rightarrow> (string \<rightharpoonup> ref)" where
  "getCache tbl endpointName =
     (case tbl (cacheName endpointName) of None \<Rightarrow> Map.empty | Some cache \<Rightarrow> cache)"

definition getCache_table ::
  "(string \<rightharpoonup> (string \<rightharpoonup> ref)) \<Rightarrow> jsval \<Rightarrow> (string \<rightharpoonup> (string \<rightharpoonup> ref))" where
  "getCache_table tbl endpointName = tbl(cacheName endpointName \<mapsto> getCache tbl endpointName)"

text \<open>\<open>cache[cacheKey] = model\<close> and \<open>delete cache[cacheKey]\<close> in the cache of a name.\<close>

definition cache_put ::
  "jsval \<Rightarrow> string \<Rightarrow> ref \<Rightarrow> (string \<rightharpoonup> (string \<rightharpoonup> ref)) \<Rightarrow> (string \<rightharpoonup> (string \<rightharpoonup> ref))" where
  "cache_put endpointName key r tbl =
     tbl(cacheName endpointName \<mapsto> (getCache tbl endpointName)(key \<mapsto> r))"

definition cache_delete ::
  "jsval \<Rightarrow> string \<Rightarrow> (string \<rightharpoonup> (string \<rightharpoonup> ref)) \<Rightarrow> (string \<rightharpoonup> (string \<rightharpoonup> ref))" where
  "cache_delete endpointName key tbl =
     tbl(cacheName endpointName \<mapsto> (getCache tbl endpointName)(key := None))"

datatype item = Data jsval | Instance ref

text \<open>The key of a Model with identity: \<^verbatim>\<open>__cacheKey({[idKey]: model.id}, model.getParams)\<close>.\<close>

definition model_cacheKey :: "string \<Rightarrow> Model \<Rightarrow> string" where
  "model_cacheKey idk model =
     js_String (cacheKey idk [[(idk, Model_id idk model)], Model.getParams model])"

text \<open>
  \<^verbatim>\<open>addModel\<close> for an instance of \<^verbatim>\<open>Model\<close>. When the cache has a Model under the
  key already, that Model takes the attributes of the given one by \<^verbatim>\<open>set\<close>, which also
  writes the identity in string form into the attributes object of the given Model.
\<close>

definition addModel_instance :: "ref \<Rightarrow> jsval \<Rightarrow> world \<Rightarrow> error + (ref \<times> world)" where
  "addModel_instance r endpointName w =
     (let res = resource w; idk = idKey res; model = heap w r;
          cache = getCache (Resource.models res) endpointName
      in if truthy (Model_id idk model)
         then
           let key = model_cacheKey idk model
           in case cache key of
                None \<Rightarrow>
                  Inr (r, w\<lparr>resource := res\<lparr>Resource.models :=
                                cache_put endpointName key r (Resource.models res)\<rparr>\<rparr>)
              | Some r' \<Rightarrow>
                  (case Model_set idk (JObj (attributes model)) (heap w r') of
                     Inl e \<Rightarrow> Inl e
                   | Inr (attrs', m') \<Rightarrow>
                       Inr (r', w\<lparr>heap := (heap w)
                                   (r := model\<lparr>attributes := own_props attrs'\<rparr>, r' := m'),
                                 resource := res\<lparr>Resource.models :=
                                   getCache_table (Resource.models res) endpointName\<rparr>\<rparr>))
         else
           let key = js_String (cacheKey idk [attributes model])
           in Inr (r, w\<lparr>resource := res\<lparr>Resource.models :=
                           cache_put endpointName key r (Resource.models res),
                         collections := Map.empty\<rparr>\<rparr>))"

text \<open>
  \<^verbatim>\<open>createModel\<close>: the URL for a named endpoint and the constructor of \<^verbatim>\<open>Model\<close>,
  which may raise before anything is changed (\<open>constructModel\<close>); then the new Model gets
  the next free reference and is added.
\<close>

definition constructModel :: "jsval \<Rightarrow> obj \<Rightarrow> jsval \<Rightarrow> world \<Rightarrow> error + Model" where
  "constructModel data gp endpointName w =
     (let res = resource w; idk = idKey res
      in if truthy endpointName \<and> (data = JUndefined \<or> data = JNull)
         then Inl (TypeError ''cannot read properties of undefined'')
         else
           let u = (if truthy endpointName
                    then urls w (name res @ ''_'' @ js_String endpointName) (get_prop data idk)
                    else JUndefined)
           in case Model_constructor idk data gp u of
                Inl e \<Rightarrow> Inl e
              | Inr (data', model) \<Rightarrow> Inr model)"

definition createModel :: "jsval \<Rightarrow> obj \<Rightarrow> jsval \<Rightarrow> world \<Rightarrow> error + (ref \<times> world)" where
  "createModel data gp endpointName w =
     (case constructModel data gp endpointName w of
        Inl e \<Rightarrow> Inl e
      | Inr model \<Rightarrow>
          addModel_instance (next_ref w) endpointName
            (w\<lparr>heap := (heap w)(next_ref w := model), next_ref := Suc (next_ref w)\<rparr>))"

text \<open>The Model that \<^verbatim>\<open>addModel\<close> adds: the instance given, or the one made of the data.\<close>

definition item_model :: "item \<Rightarrow> obj \<Rightarrow> jsval \<Rightarrow> world \<Rightarrow> error + Model" where
  "item_model model gp endpointName w =
     (case model of
        Data data \<Rightarrow> constructModel data gp endpointName w
      | Instance r \<Rightarrow> Inr (heap w r))"

definition addModel :: "item \<Rightarrow> obj \<Rightarrow> jsval \<Rightarrow> world \<Rightarrow> error + (ref \<times> world)" where
  "addModel model gp endpointName w =
     (case model of
        Data data \<Rightarrow> createModel data gp endpointName w
      | Instance r \<Rightarrow> addModel_instance r endpointName w)"

text \<open>\<^verbatim>\<open>getModel\<close> returns what the cache holds under the key after the lookup.\<close>

definition getModel :: "jsval \<Rightarrow> obj \<Rightarrow> jsval \<Rightarrow> world \<Rightarrow> error + (ref option \<times> world)" where
  "getModel ident gp endpointName w =
     (let res = resource w; idk = idKey res;
          key = js_String (cacheKey idk [[(idk, ident)], gp]);
          w1 = w\<lparr>resource := res\<lparr>Resource.models :=
                  getCache_table (Resource.models res) endpointName\<rparr>\<rparr>
      in case getCache (Resource.models res) endpointName key of
           Some r \<Rightarrow> Inr (Some r, w1)
         | None \<Rightarrow>
             (case createModel (JObj [(idk, ident)]) gp endpointName w1 of
                Inl e \<Rightarrow> Inl e
              | Inr (r, w2) \<Rightarrow>
                  Inr (getCache (Resource.models (resource w2)) endpointName key, w2)))"

definition removeModel :: "Model \<Rightarrow> jsval \<Rightarrow> Resource \<Rightarrow> Resource" where
  "removeModel model endpointName res =
     res\<lparr>Resource.models :=
       cache_delete endpointName (model_cacheKey (idKey res) model) (Resource.models res)\<rparr>"

definition removeCollection :: "Collection \<Rightarrow> jsval \<Rightarrow> Resource \<Rightarrow> Resource" where
  "removeCollection c endpointName res =
     res\<lparr>collections :=
       cache_delete endpointName
         (js_String (cacheKey (idKey res) [Collection.getParams c]))
         (collections res)\<rparr>"

subsection \<open>Collection: membership\<close>

definition Collection_clearCache :: "Collection \<Rightarrow> Collection" where
  "Collection_clearCache c = c\<lparr>Collection.models := [], model_map := Map.empty\<rparr>"

text \<open>The key under which \<^verbatim>\<open>Collection.set\<close> records a Model.\<close>

definition member_key :: "string \<Rightarrow> Model \<Rightarrow> string" where
  "member_key idk setModel =
     (if truthy (Model_id idk setModel) then js_String (Model_id idk setModel)
      else js_String (cacheKey idk [attributes setModel]))"

text \<open>
  The names of the properties of \<^verbatim>\<open>Object.prototype\<close>. The index \<^verbatim>\<open>_model_map\<close>
  is a plain object \<^verbatim>\<open>{}\<close>, so that reading it under one of these names gives the
  inherited property, a function (or, for \<^verbatim>\<open>__proto__\<close>, the prototype object), which
  counts as true in a condition.
\<close>

definition Object_prototype_keys :: "string list" where
  "Object_prototype_keys =
     [''constructor'', ''__defineGetter__'', ''__defineSetter__'', ''hasOwnProperty'',
      ''__lookupGetter__'', ''__lookupSetter__'', ''isPrototypeOf'', ''propertyIsEnumerable'',
      ''toString'', ''valueOf'', ''__proto__'', ''toLocaleString'']"

text \<open>
  The condition \<^verbatim>\<open>this._model_map[cacheKey]\<close>: true for a key under which a Model is
  recorded, and for the name of an inherited property.
\<close>

definition model_map_truthy :: "(string \<rightharpoonup> ref) \<Rightarrow> string \<Rightarrow> bool" where
  "model_map_truthy mm key = (mm key \<noteq> None \<or> key \<in> set Object_prototype_keys)"

text \<open>
  The loop of \<^verbatim>\<open>Collection.set\<close>. An exception of \<^verbatim>\<open>addModel\<close> ends the loop and
  leaves what the earlier rounds have done.
\<close>

fun Collection_set_each ::
  "obj \<Rightarrow> item list \<Rightarrow> Collection \<times> world \<Rightarrow> error option \<times> Collection \<times> world" where
  "Collection_set_each gp [] cw = (None, cw)"
| "Collection_set_each gp (model # rest) cw =
     (case addModel model gp JUndefined (snd cw) of
        Inl e \<Rightarrow> (Some e, cw)
      | Inr (setModel, w') \<Rightarrow>
          let c = fst cw; key = member_key (idKey (resource w')) (heap w' setModel)
          in if \<not> model_map_truthy (model_map c) key
             then Collection_set_each gp rest
                    (c\<lparr>Collection.models := Collection.models c @ [setModel],
                       model_map := (model_map c)(key \<mapsto> setModel)\<rparr>, w')
             else Collection_set_each gp rest (c, w'))"

datatype set_arg = Single item | Array "item list"

definition Array_isArray :: "jsval \<Rightarrow> bool" where
  "Array_isArray v = (case v of JArr xs \<Rightarrow> True | _ \<Rightarrow> False)"

definition modelsToSet :: "set_arg \<Rightarrow> item list" where
  "modelsToSet arg =
     (case arg of
        Array xs \<Rightarrow> xs
      | Single (Data (JArr xs)) \<Rightarrow> map Data xs
      | Single x \<Rightarrow> [x])"

text \<open>The GET parameters that \<^verbatim>\<open>Collection.set\<close> gives to \<^verbatim>\<open>addModel\<close>.\<close>

definition Collection_set_getParams :: "Collection \<Rightarrow> obj" where
  "Collection_set_getParams c =
     (let fields = obj_get (Collection.getParams c) ''fields''
      in if truthy fields then [(''fields'', fields)] else [])"

definition Collection_set ::
  "set_arg \<Rightarrow> Collection \<times> world \<Rightarrow> error option \<times> Collection \<times> world" where
  "Collection_set arg cw =
     Collection_set_each (Collection_set_getParams (fst cw)) (modelsToSet arg) cw"

definition Collection_data :: "Collection \<Rightarrow> world \<Rightarrow> jsval" where
  "Collection_data c w =
     (let data = JArr (map (\<lambda>model. Model_data (heap w model))
                        (filter (\<lambda>model. \<not> deleted (heap w model)) (Collection.models c)))
      in case metadata c of
           None \<Rightarrow> data
         | Some md \<Rightarrow> JObj (Object_assign [] [[(''results'', data)], md]))"

definition Collection_url :: "world \<Rightarrow> Collection \<Rightarrow> jsval" where
  "Collection_url w c =
     (if truthy (Collection.priv_url c) then Collection.priv_url c else collectionUrl w)"

section \<open>Promises and the transport client\<close>

text \<open>
  A promise is settled once: \<^verbatim>\<open>resolve\<close> and \<^verbatim>\<open>reject\<close> on a settled promise do
  nothing.
\<close>

definition settle_promise :: "handle \<Rightarrow> settle \<Rightarrow> world \<Rightarrow> world" where
  "settle_promise h s w =
     (case settled w h of None \<Rightarrow> w\<lparr>settled := (settled w)(h \<mapsto> s)\<rparr> | Some s' \<Rightarrow> w)"

definition is_rejected :: "settle option \<Rightarrow> bool" where
  "is_rejected s = (case s of Some (Rejected reason) \<Rightarrow> True | _ \<Rightarrow> False)"

definition resolved_value :: "settle option \<Rightarrow> jsval" where
  "resolved_value s = (case s of Some (Resolved v) \<Rightarrow> v | _ \<Rightarrow> JUndefined)"

text \<open>
  Modelled from the spec: \<^verbatim>\<open>ConditionalPromise\<close> (the module
  \<^verbatim>\<open>./conditionalPromise\<close> is not among the sources). The promises of the methods are
  objects of this class, and \<^verbatim>\<open>Promise.all\<close> learns of each through its method
  \<^verbatim>\<open>then\<close>. The spec calls the handle of an operation awaitable, and a new operation
  awaits the settlement of the handles of the snapshot: \<open>ConditionalPromise_then\<close> is
  what an awaited handle reports, namely how its operation has been settled (the value it
  was resolved with, or the reason it was rejected with), and nothing while the operation
  is pending. A handler that a caller attaches to a handle is taken not to change what the
  handle reports.
\<close>

definition ConditionalPromise_then :: "(handle \<rightharpoonup> settle) \<Rightarrow> handle \<Rightarrow> settle option" where
  "ConditionalPromise_then tbl h = tbl h"

text \<open>
  \<^verbatim>\<open>Promise.all\<close> over a list of promises, from what each reports when awaited:
  rejected with the reason of a rejected promise of the list, resolved with the values when
  all are resolved, and \<open>None\<close> while neither is the case. The table keeps no times; of
  several rejected promises the first of the list gives the reason.
\<close>

definition Promise_all :: "(handle \<rightharpoonup> settle) \<Rightarrow> handle list \<Rightarrow> settle option" where
  "Promise_all tbl hs =
     (case List.find (\<lambda>h. is_rejected (ConditionalPromise_then tbl h)) hs of
        Some h \<Rightarrow> ConditionalPromise_then tbl h
      | None \<Rightarrow>
          if list_all (\<lambda>h. ConditionalPromise_then tbl h \<noteq> None) hs
          then Some (Resolved
                       (JArr (map (\<lambda>h. resolved_value (ConditionalPromise_then tbl h)) hs)))
          else None)"

text \<open>
  \<^verbatim>\<open>promises.splice(promises.indexOf(promise), 1)\<close>: \<^verbatim>\<open>indexOf\<close> gives \<open>-1\<close> for a
  promise that is not in the list, and \<^verbatim>\<open>splice(-1, 1)\<close> removes the last element.
\<close>

definition splice_promise :: "handle \<Rightarrow> handle list \<Rightarrow> handle list" where
  "splice_promise h hs = (if h \<in> set hs then remove1 h hs else butlast hs)"

text \<open>
  \<^verbatim>\<open>Resource.client(options)\<close>: the options with which the transport client is
  called. The content cache key is written into the object \<^verbatim>\<open>options.params\<close> itself.
\<close>

definition client_options :: "Resource \<Rightarrow> jsval \<Rightarrow> obj \<Rightarrow> obj" where
  "client_options res cck options =
     (if useContentCacheKey res \<and> \<not> truthy (obj_get options ''data'')
      then
        let params = (if truthy (obj_get options ''params'') then obj_get options ''params''
                      else JObj []);
            params' = (if is_object params then set_prop params ''contentCacheKey'' cck
                       else params)
        in obj_set ''cacheBust'' (JBool False) (obj_set ''params'' params' options)
      else options)"

definition client :: "obj \<Rightarrow> world \<Rightarrow> world" where
  "client options w =
     w\<lparr>calls := calls w @ [client_options (resource w) (contentCacheKey w) options]\<rparr>"

text \<open>
  The object \<^verbatim>\<open>getParams\<close> of a Model or Collection after it has been passed to the
  client as \<^verbatim>\<open>params\<close>.
\<close>

definition params_after_client :: "Resource \<Rightarrow> jsval \<Rightarrow> obj \<Rightarrow> obj" where
  "params_after_client res cck options =
     own_props (obj_get (client_options res cck options) ''params'')"

text \<open>
  \<^verbatim>\<open>Resource.logError\<close> and the logger of the module write to the console; the state
  keeps what was logged. The error value is taken to have the fields that
  \<^verbatim>\<open>logError\<close> reads.
\<close>

definition logError :: "jsval \<Rightarrow> world \<Rightarrow> world" where
  "logError err w = w\<lparr>log := log w @ [LogError err]\<rparr>"

definition logging :: "severity \<Rightarrow> string \<Rightarrow> jsval \<Rightarrow> world \<Rightarrow> world" where
  "logging sev msg v w = w\<lparr>log := log w @ [Logging sev msg v]\<rparr>"

definition update_model :: "ref \<Rightarrow> (Model \<Rightarrow> Model) \<Rightarrow> world \<Rightarrow> world" where
  "update_model r f w = w\<lparr>heap := (heap w)(r := f (heap w r))\<rparr>"

section \<open>The asynchronous methods of a Model\<close>

text \<open>
  Each of \<^verbatim>\<open>fetch\<close>, \<^verbatim>\<open>save\<close> and \<^verbatim>\<open>delete\<close> is given in three parts. The call
  itself creates the promise, takes the promises of the Model as they are at that moment
  for \<^verbatim>\<open>Promise.all\<close>, and adds the new promise to them; it returns the handle of the
  promise and that snapshot. The part \<open>_then\<close> is the pair of callbacks that runs when
  \<^verbatim>\<open>Promise.all\<close> over the snapshot is settled, and the part \<open>_response\<close> is the pair of
  callbacks that runs when the transport client has answered.
\<close>

definition Model_push_promise :: "ref \<Rightarrow> world \<Rightarrow> handle \<times> handle list \<times> world" where
  "Model_push_promise r w =
     (let promise = next_handle w; snapshot = Model.promises (heap w r)
      in (promise, snapshot,
          update_model r (\<lambda>m. m\<lparr>Model.promises := Model.promises m @ [promise]\<rparr>)
            (w\<lparr>next_handle := Suc promise\<rparr>)))"

definition Model_splice :: "ref \<Rightarrow> handle \<Rightarrow> world \<Rightarrow> world" where
  "Model_splice r promise w =
     update_model r (\<lambda>m. m\<lparr>Model.promises := splice_promise promise (Model.promises m)\<rparr>) w"

text \<open>The request of a Model, with \<^verbatim>\<open>params: this.getParams\<close>.\<close>

definition Model_client :: "ref \<Rightarrow> obj \<Rightarrow> world \<Rightarrow> world" where
  "Model_client r options w =
     client options
       (update_model r
          (\<lambda>m. m\<lparr>Model.getParams :=
                   params_after_client (resource w) (contentCacheKey w) options\<rparr>) w)"

subsection \<open>\<^verbatim>\<open>Model.fetch\<close>\<close>

definition Model_fetch :: "ref \<Rightarrow> world \<Rightarrow> handle \<times> handle list \<times> world" where
  "Model_fetch r w = Model_push_promise r w"

definition Model_fetch_then :: "bool \<Rightarrow> ref \<Rightarrow> handle \<Rightarrow> settle \<Rightarrow> world \<Rightarrow> world" where
  "Model_fetch_then force r promise prior w =
     (case prior of
        Rejected reason \<Rightarrow> settle_promise promise (Rejected reason) w
      | Resolved vs \<Rightarrow>
          if \<not> force \<and> Model.synced (heap w r)
          then settle_promise promise (Resolved (Model_data (heap w r))) w
          else
            let w1 = update_model r (\<lambda>m. m\<lparr>synced := False\<rparr>) w
            in Model_client r
                 [(''url'', Model_url w1 (heap w1 r)),
                  (''params'', JObj (Model.getParams (heap w1 r)))] w1)"

definition Model_fetch_response :: "ref \<Rightarrow> handle \<Rightarrow> client_result \<Rightarrow> world \<Rightarrow> world" where
  "Model_fetch_response r promise result w =
     (case result of
        Success response \<Rightarrow>
          (case Model_set (idKey (resource w)) (obj_get response ''data'') (heap w r) of
             Inl e \<Rightarrow> w
           | Inr (data', m) \<Rightarrow>
               let w1 = w\<lparr>heap := (heap w)(r := m\<lparr>synced := True, new := False\<rparr>)\<rparr>;
                   w2 = settle_promise promise (Resolved (Model_data (heap w1 r))) w1
               in Model_splice r promise w2)
      | Failure response \<Rightarrow>
          Model_splice r promise (settle_promise promise (Rejected response) (logError response w)))"

subsection \<open>\<^verbatim>\<open>Model.save\<close>\<close>

text \<open>The payload of a synced Model: the properties of \<open>attrs\<close> that differ.\<close>

definition dirty_payload :: "obj \<Rightarrow> obj \<Rightarrow> obj" where
  "dirty_payload attrs current =
     fold (\<lambda>key payload.
             if \<not> isEqual (obj_get attrs key) (obj_get current key)
             then obj_set key (obj_get attrs key) payload else payload)
       (Object_keys attrs) []"

text \<open>
  \<open>attrs\<close> is an object, or \<open>None\<close> when \<^verbatim>\<open>save\<close> is called without it. For a synced
  Model \<^verbatim>\<open>Object.keys(undefined)\<close> raises, and the callback ends there.
\<close>

definition save_payload :: "obj option \<Rightarrow> Model \<Rightarrow> error + obj" where
  "save_payload attrs m =
     (if Model.synced m
      then (case attrs of
              None \<Rightarrow> Inl (TypeError ''cannot convert undefined to object'')
            | Some a \<Rightarrow> Inr (dirty_payload a (attributes m)))
      else Inr (Object_assign [] [attributes m, (case attrs of None \<Rightarrow> [] | Some a \<Rightarrow> a)]))"

definition Model_save :: "ref \<Rightarrow> world \<Rightarrow> handle \<times> handle list \<times> world" where
  "Model_save r w = Model_push_promise r w"

definition Model_save_then ::
  "obj option \<Rightarrow> bool \<Rightarrow> ref \<Rightarrow> handle \<Rightarrow> settle \<Rightarrow> world \<Rightarrow> world" where
  "Model_save_then attrs exists r promise prior w =
     (case prior of
        Rejected reason \<Rightarrow> settle_promise promise (Rejected reason) w
      | Resolved vs \<Rightarrow>
          (case save_payload attrs (heap w r) of
             Inl e \<Rightarrow> w
           | Inr payload \<Rightarrow>
               if length (Object_keys payload) = 0
               then settle_promise promise (Resolved (Model_data (heap w r))) w
               else
                 let w1 = update_model r (\<lambda>m. m\<lparr>synced := False\<rparr>) w;
                     m = heap w1 r;
                     clientObj =
                       (if \<not> Model.new m \<or> exists
                        then [(''url'', Model_url w1 m), (''method'', JStr ''patch''),
                              (''data'', JObj payload), (''params'', JObj (Model.getParams m))]
                        else [(''url'', collectionUrl w1), (''method'', JStr ''post''),
                              (''data'', JObj payload), (''params'', JObj (Model.getParams m))])
                 in Model_client r clientObj w1))"

definition Model_save_response :: "ref \<Rightarrow> handle \<Rightarrow> client_result \<Rightarrow> world \<Rightarrow> world" where
  "Model_save_response r promise result w =
     (case result of
        Success response \<Rightarrow>
          (let idk = idKey (resource w); oldId = Model_id idk (heap w r)
           in case Model_set idk (obj_get response ''data'') (heap w r) of
                Inl e \<Rightarrow> w
              | Inr (data', m) \<Rightarrow>
                  let w1 = w\<lparr>heap := (heap w)(r := m)\<rparr>
                  in case (if \<not> truthy oldId \<and> truthy (Model_id idk m)
                           then addModel (Instance r) (Model.getParams m) JUndefined w1
                           else Inr (r, w1)) of
                       Inl e \<Rightarrow> w1
                     | Inr (r', w2) \<Rightarrow>
                         let w3 = update_model r (\<lambda>m. m\<lparr>synced := True, new := False\<rparr>) w2;
                             w4 = settle_promise promise (Resolved (Model_data (heap w3 r))) w3
                         in Model_splice r promise w4)
      | Failure response \<Rightarrow>
          Model_splice r promise (settle_promise promise (Rejected response) (logError response w)))"

subsection \<open>\<^verbatim>\<open>Model.delete\<close>\<close>

definition Model_delete :: "ref \<Rightarrow> world \<Rightarrow> handle \<times> handle list \<times> world" where
  "Model_delete r w = Model_push_promise r w"

definition Model_delete_then :: "ref \<Rightarrow> handle \<Rightarrow> settle \<Rightarrow> world \<Rightarrow> world" where
  "Model_delete_then r promise prior w =
     (case prior of
        Rejected reason \<Rightarrow> settle_promise promise (Rejected reason) w
      | Resolved vs \<Rightarrow>
          if \<not> truthy (Model_id (idKey (resource w)) (heap w r))
          then settle_promise promise
                 (Rejected (JStr ''Can not delete model that we do not have an id for'')) w
          else
            Model_client r
              [(''url'', Model_url w (heap w r)), (''method'', JStr ''delete''),
               (''params'', JObj (Model.getParams (heap w r)))] w)"

definition Model_delete_response :: "ref \<Rightarrow> handle \<Rightarrow> client_result \<Rightarrow> world \<Rightarrow> world" where
  "Model_delete_response r promise result w =
     (case result of
        Success response \<Rightarrow>
          (let w1 = w\<lparr>resource := removeModel (heap w r) JUndefined (resource w)\<rparr>;
               w2 = update_model r (\<lambda>m. m\<lparr>deleted := True, synced := False, new := True\<rparr>) w1;
               w3 = settle_promise promise
                      (Resolved (Model_id (idKey (resource w2)) (heap w2 r))) w2
           in Model_splice r promise w3)
      | Failure response \<Rightarrow>
          Model_splice r promise (settle_promise promise (Rejected response) (logError response w)))"


section \<open>The constructor and the asynchronous methods of a Collection\<close>

definition Collection_constructor ::
  "obj \<Rightarrow> set_arg \<Rightarrow> jsval \<Rightarrow> world \<Rightarrow> error option \<times> Collection \<times> world" where
  "Collection_constructor gp data u w =
     (let c0 = \<lparr>Collection.getParams = gp, Collection.models = [], model_map = Map.empty,
                Collection.priv_url = u, priv_synced = False, priv_new = False,
                metadata = None, Collection.promises = []\<rparr>;
          cw1 = Collection_set_new True (Collection_set_synced False (c0, w))
      in Collection_set data cw1)"

definition Collection_push_promise ::
  "Collection \<times> world \<Rightarrow> handle \<times> handle list \<times> Collection \<times> world" where
  "Collection_push_promise cw =
     (let promise = next_handle (snd cw); snapshot = Collection.promises (fst cw)
      in (promise, snapshot,
          (fst cw)\<lparr>Collection.promises := Collection.promises (fst cw) @ [promise]\<rparr>,
          (snd cw)\<lparr>next_handle := Suc promise\<rparr>))"

definition Collection_splice :: "handle \<Rightarrow> Collection \<Rightarrow> Collection" where
  "Collection_splice promise c =
     c\<lparr>Collection.promises := splice_promise promise (Collection.promises c)\<rparr>"

subsection \<open>\<^verbatim>\<open>Collection.fetch\<close>\<close>

definition Collection_fetch ::
  "Collection \<times> world \<Rightarrow> handle \<times> handle list \<times> Collection \<times> world" where
  "Collection_fetch cw = Collection_push_promise cw"

definition Collection_fetch_then ::
  "bool \<Rightarrow> handle \<Rightarrow> settle \<Rightarrow> Collection \<times> world \<Rightarrow> Collection \<times> world" where
  "Collection_fetch_then force promise prior cw =
     (case prior of
        Rejected reason \<Rightarrow> (fst cw, settle_promise promise (Rejected reason) (snd cw))
      | Resolved vs \<Rightarrow>
          if \<not> force \<and> Collection_synced (fst cw) (snd cw)
          then (fst cw,
                settle_promise promise (Resolved (Collection_data (fst cw) (snd cw))) (snd cw))
          else
            let cw1 = Collection_set_synced False cw; c = fst cw1; w = snd cw1;
                options = [(''url'', Collection_url w c),
                           (''params'', JObj (Collection.getParams c))]
            in (c\<lparr>Collection.getParams :=
                     params_after_client (resource w) (contentCacheKey w) options\<rparr>,
                client options w))"

text \<open>The fields of an envelope other than \<^verbatim>\<open>results\<close>.\<close>

definition envelope_metadata :: "obj \<Rightarrow> obj" where
  "envelope_metadata data =
     fold (\<lambda>key md. if key \<noteq> ''results'' then obj_set key (obj_get data key) md else md)
       (Object_keys data) []"

definition envelope_results :: "jsval \<Rightarrow> jsval" where
  "envelope_results data = (case data of JObj ps \<Rightarrow> obj_get ps ''results'' | _ \<Rightarrow> JUndefined)"

definition Collection_fetch_response ::
  "handle \<Rightarrow> client_result \<Rightarrow> Collection \<times> world \<Rightarrow> Collection \<times> world" where
  "Collection_fetch_response promise result cw =
     (case result of
        Success response \<Rightarrow>
          (let data = obj_get response ''data''
           in case
                (if Array_isArray data
                 then
                   (case Collection_set (Single (Data data))
                           (Collection_clearCache (fst cw), snd cw) of
                      (Some e, cw1) \<Rightarrow> (Some e, cw1)
                    | (None, cw1) \<Rightarrow>
                        (None, Collection_set_new False (Collection_set_synced True cw1)))
                 else if envelope_results data \<noteq> JUndefined
                 then
                   (case Collection_set (Single (Data (envelope_results data)))
                           (Collection_clearCache (fst cw), snd cw) of
                      (Some e, cw1) \<Rightarrow> (Some e, cw1)
                    | (None, cw1) \<Rightarrow>
                        (None,
                         Collection_set_new False
                           (Collection_set_synced True
                              ((fst cw1)\<lparr>metadata :=
                                  Some (envelope_metadata (own_props data))\<rparr>, snd cw1))))
                 else
                   (None, fst cw,
                    settle_promise promise (Rejected (JObj response))
                      (logging Error ''Data appears to be malformed'' data (snd cw)))) of
                (Some e, cw2) \<Rightarrow> cw2
              | (None, cw2) \<Rightarrow>
                  (Collection_splice promise (fst cw2),
                   settle_promise promise (Resolved (Collection_data (fst cw2) (snd cw2)))
                     (snd cw2)))
      | Failure response \<Rightarrow>
          (Collection_splice promise (fst cw),
           settle_promise promise (Rejected response) (logError response (snd cw))))"

subsection \<open>\<^verbatim>\<open>Collection.save\<close>\<close>

definition Collection_save ::
  "Collection \<times> world \<Rightarrow> handle \<times> handle list \<times> Collection \<times> world" where
  "Collection_save cw = Collection_push_promise cw"

definition Collection_save_then ::
  "jsval list \<Rightarrow> handle \<Rightarrow> settle \<Rightarrow> Collection \<times> world \<Rightarrow> Collection \<times> world" where
  "Collection_save_then data promise prior cw =
     (case prior of
        Rejected reason \<Rightarrow> (fst cw, settle_promise promise (Rejected reason) (snd cw))
      | Resolved vs \<Rightarrow>
          if length data = 0 \<and> \<not> Collection_new (fst cw) (snd cw)
          then (Collection_splice promise (fst cw),
                settle_promise promise
                  (Rejected (JStr ''Cannot update collections, only create them'')) (snd cw))
          else
            let cw1 = Collection_set_synced False cw; c = fst cw1; w = snd cw1;
                payload = (if length data \<noteq> 0 then JArr data else Collection_data c w);
                clientObj = [(''url'', collectionUrl w), (''data'', payload),
                             (''method'', JStr ''post'')]
            in (c, client clientObj w))"

definition Collection_save_response ::
  "handle \<Rightarrow> client_result \<Rightarrow> Collection \<times> world \<Rightarrow> Collection \<times> world" where
  "Collection_save_response promise result cw =
     (case result of
        Success response \<Rightarrow>
          (let data = obj_get response ''data''
           in case
                (if Array_isArray data
                 then
                   (case Collection_set (Single (Data data))
                           (Collection_clearCache (fst cw), snd cw) of
                      (Some e, cw1) \<Rightarrow> (Some e, cw1)
                    | (None, cw1) \<Rightarrow>
                        (None, Collection_set_new False (Collection_set_synced True cw1)))
                 else
                   (None, fst cw,
                    settle_promise promise (Rejected (JObj response))
                      (logging Debug ''Data appears to be malformed'' data (snd cw)))) of
                (Some e, cw2) \<Rightarrow> cw2
              | (None, cw2) \<Rightarrow>
                  (Collection_splice promise (fst cw2),
                   settle_promise promise (Resolved (Collection_data (fst cw2) (snd cw2)))
                     (snd cw2)))
      | Failure response \<Rightarrow>
          (Collection_splice promise (fst cw),
           settle_promise promise (Rejected response) (logError response (snd cw))))"

subsection \<open>\<^verbatim>\<open>Collection.delete\<close>\<close>

definition Collection_delete ::
  "Collection \<times> world \<Rightarrow> handle \<times> handle list \<times> Collection \<times> world" where
  "Collection_delete cw = Collection_push_promise cw"

definition Collection_delete_then ::
  "handle \<Rightarrow> settle \<Rightarrow> Collection \<times> world \<Rightarrow> Collection \<times> world" where
  "Collection_delete_then promise prior cw =
     (case prior of
        Rejected reason \<Rightarrow> (fst cw, settle_promise promise (Rejected reason) (snd cw))
      | Resolved vs \<Rightarrow>
          if length (Object_keys (Collection.getParams (fst cw))) = 0
          then (fst cw,
                settle_promise promise
                  (Rejected (JStr
                     ''Can not delete unfiltered collection (collection without any GET params''))
                  (snd cw))
          else
            let c = fst cw; w = snd cw;
                clientObj = [(''url'', collectionUrl w), (''method'', JStr ''delete''),
                             (''params'', JObj (Collection.getParams c))]
            in (c\<lparr>Collection.getParams :=
                     params_after_client (resource w) (contentCacheKey w) clientObj\<rparr>,
                client clientObj w))"

definition delete_members :: "ref list \<Rightarrow> world \<Rightarrow> world" where
  "delete_members rs w =
     fold (\<lambda>model w'.
             let w1 = update_model model (\<lambda>m. m\<lparr>deleted := True\<rparr>) w'
             in w1\<lparr>resource := removeModel (heap w1 model) JUndefined (resource w1)\<rparr>)
       rs w"

definition Collection_delete_response ::
  "handle \<Rightarrow> client_result \<Rightarrow> Collection \<times> world \<Rightarrow> Collection \<times> world" where
  "Collection_delete_response promise result cw =
     (case result of
        Success response \<Rightarrow>
          (let c = fst cw;
               w1 = (snd cw)\<lparr>resource := removeCollection c JUndefined (resource (snd cw))\<rparr>;
               w2 = delete_members (Collection.models c) w1;
               ids = JArr (map (\<lambda>model. Model_id (idKey (resource w2)) (heap w2 model))
                             (Collection.models c))
           in (Collection_splice promise c, settle_promise promise (Resolved ids) w2))
      | Failure response \<Rightarrow>
          (Collection_splice promise (fst cw),
           settle_promise promise (Rejected response) (logError response (snd cw))))"

subsection \<open>A call whose snapshot is settled\<close>

text \<open>
  The call of a method of a Model, followed by the callbacks of \<^verbatim>\<open>Promise.all\<close> when the
  promises of the snapshot are settled at that moment; otherwise the promise stays pending.
\<close>

definition Model_run ::
  "(ref \<Rightarrow> world \<Rightarrow> handle \<times> handle list \<times> world)
   \<Rightarrow> (ref \<Rightarrow> handle \<Rightarrow> settle \<Rightarrow> world \<Rightarrow> world) \<Rightarrow> ref \<Rightarrow> world \<Rightarrow> handle \<times> world" where
  "Model_run call callbacks r w =
     (let started = call r w; promise = fst started; snapshot = fst (snd started);
          w1 = snd (snd started)
      in (promise,
          case Promise_all (settled w1) snapshot of
            None \<Rightarrow> w1
          | Some prior \<Rightarrow> callbacks r promise prior w1))"

text \<open>The same for a method of a Collection.\<close>

definition Collection_run ::
  "(Collection \<times> world \<Rightarrow> handle \<times> handle list \<times> Collection \<times> world)
   \<Rightarrow> (handle \<Rightarrow> settle \<Rightarrow> Collection \<times> world \<Rightarrow> Collection \<times> world)
   \<Rightarrow> Collection \<times> world \<Rightarrow> handle \<times> Collection \<times> world" where
  "Collection_run call callbacks cw =
     (let started = call cw; promise = fst started; snapshot = fst (snd started);
          cw1 = snd (snd started)
      in (promise,
          case Promise_all (settled (snd cw1)) snapshot of
            None \<Rightarrow> cw1
          | Some prior \<Rightarrow> callbacks promise prior cw1))"

section \<open>Objects with identity\<close>

text \<open>
  \<^verbatim>\<open>Model.set\<close> writes into the object that its caller passes, and what it keeps of that
  object is a copy. To tell an object from its copy, a value is given here with the
  address of each of its objects and arrays: two nodes with the same address are the same
  object. \<open>erase\<close> forgets the addresses.
\<close>

type_synonym addr = nat

datatype hval =
    HUndefined
  | HNull
  | HBool bool
  | HNum int
  | HStr string
  | HArr addr "hval list"
  | HObj addr "(string \<times> hval) list"

fun erase :: "hval \<Rightarrow> jsval"
  and erase_elems :: "hval list \<Rightarrow> jsval list"
  and erase_props :: "(string \<times> hval) list \<Rightarrow> obj" where
  "erase HUndefined = JUndefined"
| "erase HNull = JNull"
| "erase (HBool b) = JBool b"
| "erase (HNum n) = JNum n"
| "erase (HStr s) = JStr s"
| "erase (HArr a xs) = JArr (erase_elems xs)"
| "erase (HObj a ps) = JObj (erase_props ps)"
| "erase_elems [] = []"
| "erase_elems (x # xs) = erase x # erase_elems xs"
| "erase_props [] = []"
| "erase_props (p # ps) = (fst p, erase (snd p)) # erase_props ps"

text \<open>The addresses of the objects and arrays of a value.\<close>

fun addrs :: "hval \<Rightarrow> addr set"
  and addrs_elems :: "hval list \<Rightarrow> addr set"
  and addrs_props :: "(string \<times> hval) list \<Rightarrow> addr set" where
  "addrs HUndefined = {}"
| "addrs HNull = {}"
| "addrs (HBool b) = {}"
| "addrs (HNum n) = {}"
| "addrs (HStr s) = {}"
| "addrs (HArr a xs) = insert a (addrs_elems xs)"
| "addrs (HObj a ps) = insert a (addrs_props ps)"
| "addrs_elems [] = {}"
| "addrs_elems (x # xs) = addrs x \<union> addrs_elems xs"
| "addrs_props [] = {}"
| "addrs_props (p # ps) = addrs (snd p) \<union> addrs_props ps"

text \<open>
  A later change of the object at address \<open>a\<close>, whatever it is: \<open>f\<close> gives the object
  after the change. Every value that holds the object sees the change.
\<close>

fun mutate :: "addr \<Rightarrow> (hval \<Rightarrow> hval) \<Rightarrow> hval \<Rightarrow> hval"
  and mutate_elems :: "addr \<Rightarrow> (hval \<Rightarrow> hval) \<Rightarrow> hval list \<Rightarrow> hval list"
  and mutate_props ::
    "addr \<Rightarrow> (hval \<Rightarrow> hval) \<Rightarrow> (string \<times> hval) list \<Rightarrow> (string \<times> hval) list" where
  "mutate a f HUndefined = HUndefined"
| "mutate a f HNull = HNull"
| "mutate a f (HBool b) = HBool b"
| "mutate a f (HNum n) = HNum n"
| "mutate a f (HStr s) = HStr s"
| "mutate a f (HArr b xs) =
     (if b = a then f (HArr b xs) else HArr b (mutate_elems a f xs))"
| "mutate a f (HObj b ps) =
     (if b = a then f (HObj b ps) else HObj b (mutate_props a f ps))"
| "mutate_elems a f [] = []"
| "mutate_elems a f (x # xs) = mutate a f x # mutate_elems a f xs"
| "mutate_props a f [] = []"
| "mutate_props a f (p # ps) = (fst p, mutate a f (snd p)) # mutate_props a f ps"

text \<open>
  Modelled from the spec: \<^verbatim>\<open>cloneDeep\<close> (the module \<^verbatim>\<open>./cloneDeep\<close> is not among the
  sources), the deep-copy primitive: the copy has the same content and each of its objects
  and arrays is a new one. \<open>n\<close> is the next free address; the result is the copy and the
  next free address after it.
\<close>

fun cloneDeep :: "addr \<Rightarrow> hval \<Rightarrow> hval \<times> addr"
  and cloneDeep_elems :: "addr \<Rightarrow> hval list \<Rightarrow> hval list \<times> addr"
  and cloneDeep_props :: "addr \<Rightarrow> (string \<times> hval) list \<Rightarrow> (string \<times> hval) list \<times> addr" where
  "cloneDeep n HUndefined = (HUndefined, n)"
| "cloneDeep n HNull = (HNull, n)"
| "cloneDeep n (HBool b) = (HBool b, n)"
| "cloneDeep n (HNum i) = (HNum i, n)"
| "cloneDeep n (HStr s) = (HStr s, n)"
| "cloneDeep n (HArr a xs) =
     (let r = cloneDeep_elems (Suc n) xs in (HArr n (fst r), snd r))"
| "cloneDeep n (HObj a ps) =
     (let r = cloneDeep_props (Suc n) ps in (HObj n (fst r), snd r))"
| "cloneDeep_elems n [] = ([], n)"
| "cloneDeep_elems n (x # xs) =
     (let r1 = cloneDeep n x; r2 = cloneDeep_elems (snd r1) xs
      in (fst r1 # fst r2, snd r2))"
| "cloneDeep_props n [] = ([], n)"
| "cloneDeep_props n (p # ps) =
     (let r1 = cloneDeep n (snd p); r2 = cloneDeep_props (snd r1) ps
      in ((fst p, fst r1) # fst r2, snd r2))"

text \<open>\<^verbatim>\<open>v[k] = x\<close> on the object itself: the address stays.\<close>

definition heap_set_prop :: "hval \<Rightarrow> string \<Rightarrow> hval \<Rightarrow> hval" where
  "heap_set_prop v k x =
     (case v of
        HObj a ps \<Rightarrow> HObj a (obj_set k x ps)
      | HArr a xs \<Rightarrow>
          if obj_has (array_props xs) k then HArr a (xs[nat (parse_index k) := x]) else HArr a xs
      | _ \<Rightarrow> v)"

definition heap_own_props :: "hval \<Rightarrow> (string \<times> hval) list" where
  "heap_own_props v = (case v of HObj a ps \<Rightarrow> ps | HArr a xs \<Rightarrow> array_props xs | _ \<Rightarrow> [])"

text \<open>
  \<^verbatim>\<open>Model.set(attributes)\<close> on objects with identity: \<open>current\<close> are the properties of
  \<^verbatim>\<open>this.attributes\<close> and \<open>n\<close> is the next free address. The result is the object of the
  caller after the call, the properties of \<^verbatim>\<open>this.attributes\<close> after it, and the next
  free address.
\<close>

definition Model_set_heap ::
  "string \<Rightarrow> hval \<Rightarrow> (string \<times> hval) list \<Rightarrow> addr
   \<Rightarrow> error + (hval \<times> (string \<times> hval) list \<times> addr)" where
  "Model_set_heap idk attrs current n =
     (if \<not> truthy (erase attrs) then Inr (attrs, current, n)
      else if \<not> is_object (erase attrs)
        then Inl (TypeError ''right-hand side of in is not an object'')
      else
        let attrs' =
              (if has_prop (erase attrs) idk \<and> truthy (get_prop (erase attrs) idk)
               then heap_set_prop attrs idk (HStr (js_String (get_prop (erase attrs) idk)))
               else attrs);
            copy = cloneDeep n attrs'
        in Inr (attrs', assign_one current (heap_own_props (fst copy)), snd copy))"


section \<open>Concrete states\<close>

text \<open>
  A resource \<^verbatim>\<open>thing\<close> with the identity field \<^verbatim>\<open>id\<close>, a Model that is synced and
  one that is new, and a Collection of both.
\<close>

definition example_resource :: Resource where
  "example_resource =
     \<lparr>name = ''kolibri:core:thing'', idKey = ''id'', useContentCacheKey = False,
      Resource.models = Map.empty, collections = Map.empty\<rparr>"

definition synced_model :: Model where
  "synced_model =
     \<lparr>attributes = [(''id'', JStr ''1''), (''x'', JNum 1)], Model.getParams = [],
      Model.priv_url = JUndefined, synced = True, new = False, deleted = False,
      Model.promises = []\<rparr>"

definition new_model :: Model where
  "new_model =
     \<lparr>attributes = [(''name'', JStr ''a'')], Model.getParams = [],
      Model.priv_url = JUndefined, synced = False, new = True, deleted = False,
      Model.promises = []\<rparr>"

definition example_heap :: "ref \<Rightarrow> Model" where
  "example_heap r = (if r = 0 then synced_model else new_model)"

definition example_urls :: "string \<Rightarrow> jsval \<Rightarrow> jsval" where
  "example_urls endpoint ident = JStr (''/api/thing/'' @ js_String ident)"

definition example_world :: world where
  "example_world =
     \<lparr>heap = example_heap, next_ref = 2, resource = example_resource, settled = Map.empty,
      next_handle = 0, calls = [], log = [], urls = example_urls,
      contentCacheKey = JStr ''v1''\<rparr>"

definition example_collection :: Collection where
  "example_collection =
     \<lparr>Collection.getParams = [(''page'', JNum 2)], Collection.models = [0, 1],
      model_map = [''1'' \<mapsto> 0, ''{\"name\":\"a\"}'' \<mapsto> 1],
      Collection.priv_url = JUndefined, priv_synced = True, priv_new = True,
      metadata = None, Collection.promises = []\<rparr>"

text \<open>A Collection without members.\<close>

definition empty_collection :: Collection where
  "empty_collection =
     \<lparr>Collection.getParams = [], Collection.models = [], model_map = Map.empty,
      Collection.priv_url = JUndefined, priv_synced = False, priv_new = True,
      metadata = None, Collection.promises = []\<rparr>"

text \<open>
  Two calls of \<^verbatim>\<open>fetch(true)\<close> on the Model at reference 0, one after the other. The
  request of the first is answered with an error; then the callbacks of the second run.
\<close>

definition server_error :: jsval where
  "server_error =
     JObj [(''response'', JObj [(''status'', JNum 500), (''statusText'', JStr ''Server Error'')]),
           (''config'', JObj [(''method'', JStr ''get''), (''url'', JStr ''/api/thing/1''),
                              (''params'', JObj []), (''headers'', JObj [])])]"

definition first_fetch :: "handle \<times> world" where
  "first_fetch = Model_run Model_fetch (Model_fetch_then True) 0 example_world"

definition second_fetch :: "handle \<times> handle list \<times> world" where
  "second_fetch = Model_fetch 0 (snd first_fetch)"

definition failed_fetch_world :: world where
  "failed_fetch_world =
     Model_fetch_response 0 (fst first_fetch) (Failure server_error) (snd (snd second_fetch))"

definition poisoned_world :: world where
  "poisoned_world =
     (case Promise_all (settled failed_fetch_world) (fst (snd second_fetch)) of
        None \<Rightarrow> failed_fetch_world
      | Some prior \<Rightarrow> Model_fetch_then True 0 (fst second_fetch) prior failed_fetch_world)"

text \<open>\<^verbatim>\<open>delete()\<close> on a Collection without members and without GET parameters.\<close>

definition refused_delete :: "handle \<times> Collection \<times> world" where
  "refused_delete =
     Collection_run Collection_delete Collection_delete_then (empty_collection, example_world)"

text \<open>
  Insertions into the empty cache of \<open>example_world\<close>: data with the identity \<open>1\<close>, then
  data with the identity \<open>"1"\<close> and the same (empty) GET parameters, twice, or with
  other GET parameters.
\<close>

definition first_insertion :: "error + (ref \<times> world)" where
  "first_insertion =
     addModel (Data (JObj [(''id'', JNum 1), (''a'', JNum 1)])) [] JUndefined example_world"

definition second_insertion :: "error + (ref \<times> world)" where
  "second_insertion =
     addModel (Data (JObj [(''id'', JStr ''1''), (''b'', JNum 2)])) [] JUndefined
       (snd (projr first_insertion))"

definition third_insertion :: "error + (ref \<times> world)" where
  "third_insertion =
     addModel (Data (JObj [(''id'', JStr ''1''), (''c'', JNum 3)])) [] JUndefined
       (snd (projr second_insertion))"

text \<open>
  After the first insertion, data with the identity \<open>"1"\<close> and GET parameters whose one
  value is \<^verbatim>\<open>undefined\<close>, which the JSON text of the key leaves out.
\<close>

definition undefined_param_insertion :: "error + (ref \<times> world)" where
  "undefined_param_insertion =
     addModel (Data (JObj [(''id'', JStr ''1''), (''b'', JNum 2)])) [(''lang'', JUndefined)]
       JUndefined (snd (projr first_insertion))"

definition other_params_insertion :: "error + (ref \<times> world)" where
  "other_params_insertion =
     addModel (Data (JObj [(''id'', JStr ''1''), (''b'', JNum 2)])) [(''fields'', JStr ''b'')]
       JUndefined (snd (projr first_insertion))"

text \<open>
  \<^verbatim>\<open>set\<close> of data without identity on the Collection without members, which makes the new Model at
  reference 2 a member; then \<^verbatim>\<open>save()\<close> of this Model, answered by the server with the
  identity 5; then \<^verbatim>\<open>set\<close> of the record of the server on the Collection.
\<close>

definition unsaved_member :: "error option \<times> Collection \<times> world" where
  "unsaved_member =
     Collection_set (Array [Data (JObj [(''name'', JStr ''a'')])])
       (empty_collection, example_world)"

definition save_started :: "handle \<times> world" where
  "save_started = Model_run Model_save (Model_save_then None False) 2 (snd (snd unsaved_member))"

definition saved_member_world :: world where
  "saved_member_world =
     Model_save_response 2 (fst save_started)
       (Success [(''data'', JObj [(''id'', JNum 5), (''name'', JStr ''a'')])])
       (snd save_started)"

definition set_saved_member :: "error option \<times> Collection \<times> world" where
  "set_saved_member =
     Collection_set (Array [Data (JObj [(''id'', JNum 5), (''name'', JStr ''a'')])])
       (fst (snd unsaved_member), saved_member_world)"

text \<open>
  \<^verbatim>\<open>set\<close> of three records on the Collection without members, two of them with the name
  of an inherited property as identity.
\<close>

definition set_inherited_names :: "error option \<times> Collection \<times> world" where
  "set_inherited_names =
     Collection_set
       (Array [Data (JObj [(''id'', JStr ''constructor'')]),
               Data (JObj [(''id'', JStr ''toString''), (''a'', JNum 1)]),
               Data (JObj [(''id'', JStr ''plain'')])])
       (empty_collection, example_world)"

text \<open>
  An object of a caller with the identity \<open>7\<close>, an array and an object in it, at the
  addresses 0, 1 and 2.
\<close>

definition caller_object :: hval where
  "caller_object =
     HObj 0 [(''id'', HNum 7), (''tags'', HArr 1 [HStr ''a'']),
             (''meta'', HObj 2 [(''k'', HNum 1)])]"

text \<open>A later change of an object by its holder: \<^verbatim>\<open>o.k = 99\<close>.\<close>

definition later_change :: "hval \<Rightarrow> hval" where
  "later_change v = heap_set_prop v ''k'' (HNum 99)"


section \<open>Properties of objects\<close>

lemma map_of_obj_set: "map_of (obj_set k v ob) = (map_of ob)(k \<mapsto> v)"
proof (induction ob)
  case Nil
  show ?case by simp
next
  case (Cons p ob)
  obtain k' v' where p: "p = (k', v')" by (cases p)
  show ?case using Cons by (auto simp: p fun_eq_iff)
qed

lemma keys_obj_set: "fst ` set (obj_set k v ob) = insert k (fst ` set ob)"
  by (simp add: dom_map_of_conv_image_fst [symmetric] map_of_obj_set)

lemma distinct_obj_set:
  "distinct (map fst ob) \<Longrightarrow> distinct (map fst (obj_set k v ob))"
proof (induction ob)
  case Nil
  show ?case by simp
next
  case (Cons p ob)
  obtain k' v' where p: "p = (k', v')" by (cases p)
  from Cons.prems have d: "distinct (map fst ob)" and n: "k' \<notin> fst ` set ob"
    by (auto simp: p)
  have "k' \<noteq> k \<Longrightarrow> k' \<notin> fst ` set (obj_set k v ob)"
    using n by (simp add: keys_obj_set)
  then show ?case using Cons.IH [OF d] Cons.prems
    by (auto simp: p)
qed

lemma distinct_assign_one:
  "distinct (map fst t) \<Longrightarrow> distinct (map fst (assign_one t s))"
  unfolding assign_one_def
  by (induction s arbitrary: t) (simp_all add: distinct_obj_set)

lemma distinct_Object_assign:
  "distinct (map fst t) \<Longrightarrow> distinct (map fst (Object_assign t ss))"
  unfolding Object_assign_def
  by (induction ss arbitrary: t) (simp_all add: distinct_assign_one)

lemma obj_get_mem:
  "distinct (map fst ob) \<Longrightarrow> (k, v) \<in> set ob \<Longrightarrow> obj_get ob k = v"
  by (simp add: obj_get_def)

lemma mem_obj_get:
  "k \<in> fst ` set ob \<Longrightarrow> (k, obj_get ob k) \<in> set ob"
  unfolding obj_get_def
  by (auto simp: map_of_eq_None_iff dest: map_of_SomeD split: option.splits)

section \<open>The cache key does not depend on the order of construction\<close>

lemma cacheKey_entry_eq:
  assumes da: "distinct (map fst a)" and db: "distinct (map fst b)"
    and eq: "(\<lambda>p. (fst p, identity_form idk (fst p) (snd p))) ` set a
             = (\<lambda>p. (fst p, identity_form idk (fst p) (snd p))) ` set b"
    and k: "k \<in> fst ` set a"
  shows "cacheKey_entry idk a k = cacheKey_entry idk b k"
proof -
  let ?f = "\<lambda>p. (fst p, identity_form idk (fst p) (snd p))"
  have "(k, obj_get a k) \<in> set a" using k by (rule mem_obj_get)
  then have "(k, identity_form idk k (obj_get a k)) \<in> ?f ` set a"
    by force
  then have "(k, identity_form idk k (obj_get a k)) \<in> ?f ` set b"
    using eq by simp
  then obtain v' where v': "(k, v') \<in> set b"
    and f: "identity_form idk k (obj_get a k) = identity_form idk k v'"
    by auto
  from db v' have "obj_get b k = v'" by (rule obj_get_mem)
  with f show ?thesis by (simp add: cacheKey_entry_def)
qed

lemma identity_form_keys:
  assumes "(\<lambda>p. (fst p, identity_form idk (fst p) (snd p))) ` set a
           = (\<lambda>p. (fst p, identity_form idk (fst p) (snd p))) ` set b"
  shows "fst ` set a = fst ` set b"
proof -
  let ?f = "\<lambda>p. (fst p, identity_form idk (fst p) (snd p))"
  have "fst ` set a = fst ` ?f ` set a" by (simp add: image_image)
  also have "\<dots> = fst ` ?f ` set b" by (simp only: assms)
  also have "\<dots> = fst ` set b" by (simp add: image_image)
  finally show ?thesis .
qed

lemma sort_distinct_keys:
  assumes "distinct (xs :: string list)" and "distinct ys" and "set xs = set ys"
  shows "sort xs = sort ys"
proof -
  have "sort xs = sorted_list_of_set (set xs)"
    using assms(1) by (simp add: sorted_list_of_set_sort_remdups distinct_remdups_id)
  also have "\<dots> = sort ys"
    using assms(2,3) by (simp add: sorted_list_of_set_sort_remdups distinct_remdups_id)
  finally show ?thesis .
qed

text \<open>
  Claim C1. Two sequences of parameter objects whose merges hold the same key/value pairs,
  whatever the order in which the keys were added, get the same cache key; the value of the
  identity field is compared in its string form, so that the identities \<open>7\<close> and \<open>"7"\<close>
  give the same key. The merge is \<open>Object_assign\<close> (left to right, a later object
  overriding an earlier one), the keys are sorted, and the identity field is coerced by
  \<open>identity_form\<close>.
\<close>

theorem cacheKey_order_independent:
  assumes "(\<lambda>p. (fst p, identity_form idk (fst p) (snd p))) ` set (Object_assign [] ps)
           = (\<lambda>p. (fst p, identity_form idk (fst p) (snd p))) ` set (Object_assign [] qs)"
  shows "cacheKey idk ps = cacheKey idk qs"
proof -
  let ?a = "Object_assign [] ps" and ?b = "Object_assign [] qs"
  have da: "distinct (map fst ?a)" and db: "distinct (map fst ?b)"
    by (simp_all add: distinct_Object_assign)
  have ks: "set (Object_keys ?a) = set (Object_keys ?b)"
    using identity_form_keys [OF assms] by (simp add: Object_keys_def)
  have e1: "sort (Object_keys ?a) = sort (Object_keys ?b)"
    using da db ks by (intro sort_distinct_keys) (simp_all add: Object_keys_def)
  have e2: "map (cacheKey_entry idk ?a) (sort (Object_keys ?b))
            = map (cacheKey_entry idk ?b) (sort (Object_keys ?b))"
  proof (rule map_cong [OF refl])
    fix k assume "k \<in> set (sort (Object_keys ?b))"
    then have "k \<in> fst ` set ?a" using ks by (simp add: Object_keys_def)
    then show "cacheKey_entry idk ?a k = cacheKey_entry idk ?b k"
      using da db assms by (intro cacheKey_entry_eq)
  qed
  show ?thesis by (simp only: cacheKey_def Let_def e1 e2)
qed

theorem cacheKey_order_independent_witness:
  "(\<lambda>p. (fst p, identity_form ''id'' (fst p) (snd p)))
       ` set (Object_assign [] [[(''b'', JNum 1), (''id'', JNum 7)]])
     = (\<lambda>p. (fst p, identity_form ''id'' (fst p) (snd p)))
       ` set (Object_assign [] [[(''id'', JStr ''7'')], [(''b'', JNum 1)]])
   \<and> cacheKey ''id'' [[(''b'', JNum 1), (''id'', JNum 7)]]
     = cacheKey ''id'' [[(''id'', JStr ''7'')], [(''b'', JNum 1)]]"
proof -
  have h: "(\<lambda>p. (fst p, identity_form ''id'' (fst p) (snd p)))
       ` set (Object_assign [] [[(''b'', JNum 1), (''id'', JNum 7)]])
     = (\<lambda>p. (fst p, identity_form ''id'' (fst p) (snd p)))
       ` set (Object_assign [] [[(''id'', JStr ''7'')], [(''b'', JNum 1)]])"
    by code_simp
  show ?thesis using h cacheKey_order_independent [OF h] by simp
qed


section \<open>The aggregate flags of a Collection\<close>

lemma foldl_conj:
  "foldl (\<lambda>acc x. acc \<and> P x) b xs = (b \<and> (\<forall>x\<in>set xs. P x))"
  by (induction xs arbitrary: b) auto

lemma fold_mark_synced:
  "fold (\<lambda>model h. h(model := (h model)\<lparr>synced := True\<rparr>)) xs h r
   = (if r \<in> set xs then (h r)\<lparr>synced := True\<rparr> else h r)"
  by (induction xs arbitrary: h) auto

lemma fold_mark_not_new:
  "fold (\<lambda>model h. h(model := (h model)\<lparr>new := False\<rparr>)) xs h r
   = (if r \<in> set xs then (h r)\<lparr>new := False\<rparr> else h r)"
  by (induction xs arbitrary: h) auto

text \<open>
  Claim C2, as the code has it. Reading \<^verbatim>\<open>synced\<close> (or \<^verbatim>\<open>new\<close>) of a Collection
  gives true exactly when its own flag is true and the flag of every member is true.
  Assigning \<^verbatim>\<open>synced = true\<close> sets the flag of every member to true and assigning
  \<^verbatim>\<open>new = false\<close> sets the flag of every member to false; assigning
  \<^verbatim>\<open>synced = false\<close> or \<^verbatim>\<open>new = true\<close> changes the own flag of the Collection only
  and leaves every Model as it is.
\<close>

theorem Collection_flags:
  "(Collection_synced c w
      = (priv_synced c \<and> (\<forall>r\<in>set (Collection.models c). Model.synced (heap w r))))
   \<and> (Collection_new c w
      = (priv_new c \<and> (\<forall>r\<in>set (Collection.models c). Model.new (heap w r))))
   \<and> priv_synced (fst (Collection_set_synced val (c, w))) = val
   \<and> priv_new (fst (Collection_set_new val (c, w))) = val
   \<and> (\<forall>r\<in>set (Collection.models c).
         Model.synced (heap (snd (Collection_set_synced True (c, w))) r))
   \<and> (\<forall>r\<in>set (Collection.models c).
         \<not> Model.new (heap (snd (Collection_set_new False (c, w))) r))
   \<and> snd (Collection_set_synced False (c, w)) = w
   \<and> snd (Collection_set_new True (c, w)) = w"
proof -
  have g1: "Collection_synced c w
      = (priv_synced c \<and> (\<forall>r\<in>set (Collection.models c). Model.synced (heap w r)))"
    unfolding Collection_synced_def by (rule foldl_conj)
  have g2: "Collection_new c w
      = (priv_new c \<and> (\<forall>r\<in>set (Collection.models c). Model.new (heap w r)))"
    unfolding Collection_new_def by (rule foldl_conj)
  have s1: "priv_synced (fst (Collection_set_synced val (c, w))) = val"
    by (simp add: Collection_set_synced_def Let_def)
  have s2: "priv_new (fst (Collection_set_new val (c, w))) = val"
    by (simp add: Collection_set_new_def Let_def)
  have s3: "\<forall>r\<in>set (Collection.models c).
         Model.synced (heap (snd (Collection_set_synced True (c, w))) r)"
    by (simp add: Collection_set_synced_def Let_def fold_mark_synced)
  have s4: "\<forall>r\<in>set (Collection.models c).
         \<not> Model.new (heap (snd (Collection_set_new False (c, w))) r)"
    by (simp add: Collection_set_new_def Let_def fold_mark_not_new)
  have s5: "snd (Collection_set_synced False (c, w)) = w"
    by (simp add: Collection_set_synced_def Let_def)
  have s6: "snd (Collection_set_new True (c, w)) = w"
    by (simp add: Collection_set_new_def Let_def)
  from g1 g2 s1 s2 s3 s4 s5 s6 show ?thesis by blast
qed

theorem Collection_flags_witness:
  "Model.synced (heap (snd (Collection_set_synced True (example_collection, example_world))) 1)
   \<and> \<not> Model.new (heap (snd (Collection_set_new False (example_collection, example_world))) 1)
   \<and> \<not> Collection_synced example_collection example_world"
proof -
  have m: "1 \<in> set (Collection.models example_collection)"
    by (simp add: example_collection_def)
  have n: "\<not> Model.synced (heap example_world 1)"
    by (simp add: example_world_def example_heap_def new_model_def)
  from m n Collection_flags [of example_collection example_world True]
  show ?thesis by blast
qed

text \<open>
  The claim as it is written fails for the value false of \<^verbatim>\<open>synced\<close>: the Model at
  reference 0 is a member, and it is still synced after \<^verbatim>\<open>synced = false\<close> has been
  assigned to the Collection.
\<close>

theorem Collection_set_synced_false_counterexample:
  "0 \<in> set (Collection.models example_collection)
   \<and> Model.synced (heap (snd (Collection_set_synced False (example_collection, example_world))) 0)
       \<noteq> False"
  by (simp add: example_collection_def example_world_def example_heap_def synced_model_def
      Collection_set_synced_def Let_def)


section \<open>The asynchronous methods\<close>

lemma settle_promise_pending:
  "settled w h = None \<Longrightarrow> settle_promise h s w = w\<lparr>settled := (settled w)(h \<mapsto> s)\<rparr>"
  by (simp add: settle_promise_def)

lemma client_options_data:
  "truthy (obj_get options ''data'') \<Longrightarrow> client_options res cck options = options"
  by (simp add: client_options_def)

lemma calls_Model_client:
  "calls (Model_client r options w)
   = calls w @ [client_options (resource w) (contentCacheKey w) options]"
  by (simp add: Model_client_def client_def update_model_def)

lemma settled_example_world: "settled example_world h = None"
  by (simp add: example_world_def)

subsection \<open>The payload of \<^verbatim>\<open>Model.save\<close>\<close>

lemma map_of_dirty_fold:
  "map_of (fold (\<lambda>key payload. if P key then obj_set key (f key) payload else payload) ks acc) k
   = (if k \<in> set ks \<and> P k then Some (f k) else map_of acc k)"
  by (induction ks arbitrary: acc) (auto simp: map_of_obj_set)

lemma map_of_dirty_payload:
  "map_of (dirty_payload attrs current) k
   = (if k \<in> set (Object_keys attrs) \<and> \<not> isEqual (obj_get attrs k) (obj_get current k)
      then Some (obj_get attrs k) else None)"
  unfolding dirty_payload_def by (simp add: map_of_dirty_fold)

text \<open>
  Claim C6. When the callbacks of \<^verbatim>\<open>save(attrs)\<close> run on a synced Model, the payload
  holds exactly the properties of \<open>attrs\<close> whose value is not deeply equal to the current
  attribute. If that payload is empty the callbacks resolve the promise with the current
  attributes, make no request and change no Model and no cache; otherwise the payload is
  what the request carries as its data. For a Model that is not synced the data of the
  request is the merge of the current attributes with \<open>attrs\<close>.

  The call as a whole does change the Model when the payload is empty: \<^verbatim>\<open>save\<close> has
  added the promise to \<^verbatim>\<open>promises\<close>, and the branch that resolves without a request has
  no \<^verbatim>\<open>splice\<close>. After the call, with the earlier promises resolved, the state is the
  state of before but for the new promise, which is resolved and still in the list.
\<close>

theorem Model_save_payload:
  assumes "settled w promise = None"
  shows "(Model.synced (heap w r) \<longrightarrow>
            (\<forall>k. map_of (dirty_payload attrs (attributes (heap w r))) k
                 = (if k \<in> set (Object_keys attrs)
                       \<and> \<not> isEqual (obj_get attrs k) (obj_get (attributes (heap w r)) k)
                    then Some (obj_get attrs k) else None))
            \<and> (dirty_payload attrs (attributes (heap w r)) = [] \<longrightarrow>
                 Model_save_then (Some attrs) exists r promise (Resolved vs) w
                 = w\<lparr>settled := (settled w)(promise \<mapsto> Resolved (JObj (attributes (heap w r))))\<rparr>
                 \<and> (settled w (next_handle w) = None
                    \<and> Promise_all (settled w) (Model.promises (heap w r)) = Some (Resolved vs) \<longrightarrow>
                      Model_run Model_save (Model_save_then (Some attrs) exists) r w
                      = (next_handle w,
                         w\<lparr>heap := (heap w)
                              (r := (heap w r)\<lparr>Model.promises :=
                                      Model.promises (heap w r) @ [next_handle w]\<rparr>),
                           settled := (settled w)
                              (next_handle w \<mapsto> Resolved (JObj (attributes (heap w r)))),
                           next_handle := Suc (next_handle w)\<rparr>)))
            \<and> (dirty_payload attrs (attributes (heap w r)) \<noteq> [] \<longrightarrow>
                 (\<exists>request. calls (Model_save_then (Some attrs) exists r promise (Resolved vs) w)
                              = calls w @ [request]
                    \<and> obj_get request ''data''
                      = JObj (dirty_payload attrs (attributes (heap w r))))))
       \<and> (\<not> Model.synced (heap w r) \<and> Object_assign [] [attributes (heap w r), attrs] \<noteq> [] \<longrightarrow>
            (\<exists>request. calls (Model_save_then (Some attrs) exists r promise (Resolved vs) w)
                         = calls w @ [request]
               \<and> obj_get request ''data''
                 = JObj (Object_assign [] [attributes (heap w r), attrs])))"
proof -
  let ?cur = "attributes (heap w r)"
  let ?run = "Model_save_then (Some attrs) exists r promise (Resolved vs) w"
  have sent: "\<exists>request. calls ?run = calls w @ [request] \<and> obj_get request ''data'' = JObj payload"
    if p: "save_payload (Some attrs) (heap w r) = Inr payload" and ne: "payload \<noteq> []"
    for payload
  proof -
    have "calls ?run =
      calls w @ [if \<not> Model.new (heap w r) \<or> exists
         then [(''url'', Model_url (update_model r (\<lambda>m. m\<lparr>synced := False\<rparr>) w)
                  (heap (update_model r (\<lambda>m. m\<lparr>synced := False\<rparr>) w) r)),
               (''method'', JStr ''patch''), (''data'', JObj payload),
               (''params'', JObj (Model.getParams (heap w r)))]
         else [(''url'', collectionUrl (update_model r (\<lambda>m. m\<lparr>synced := False\<rparr>) w)),
               (''method'', JStr ''post''), (''data'', JObj payload),
               (''params'', JObj (Model.getParams (heap w r)))]]"
      using p ne
      by (simp add: Model_save_then_def Let_def Object_keys_def calls_Model_client
          client_options_data obj_get_def update_model_def)
    then show ?thesis by (auto simp: obj_get_def)
  qed
  have a: "\<forall>k. map_of (dirty_payload attrs ?cur) k
                 = (if k \<in> set (Object_keys attrs) \<and> \<not> isEqual (obj_get attrs k) (obj_get ?cur k)
                    then Some (obj_get attrs k) else None)"
    by (simp add: map_of_dirty_payload)
  have b: "?run = w\<lparr>settled := (settled w)(promise \<mapsto> Resolved (JObj ?cur))\<rparr>"
    if "Model.synced (heap w r)" "dirty_payload attrs ?cur = []"
    using that assms
    by (simp add: Model_save_then_def save_payload_def Object_keys_def settle_promise_pending
        Model_data_def)
  have whole: "Model_run Model_save (Model_save_then (Some attrs) exists) r w
               = (next_handle w,
                  w\<lparr>heap := (heap w)
                       (r := (heap w r)\<lparr>Model.promises :=
                               Model.promises (heap w r) @ [next_handle w]\<rparr>),
                    settled := (settled w)(next_handle w \<mapsto> Resolved (JObj ?cur)),
                    next_handle := Suc (next_handle w)\<rparr>)"
    if "Model.synced (heap w r)" "dirty_payload attrs ?cur = []"
      "settled w (next_handle w) = None"
      "Promise_all (settled w) (Model.promises (heap w r)) = Some (Resolved vs)"
    using that
    by (simp add: Model_run_def Model_save_def Model_push_promise_def Let_def update_model_def
        Model_save_then_def save_payload_def Object_keys_def settle_promise_def Model_data_def)
  have c: "\<exists>request. calls ?run = calls w @ [request]
                    \<and> obj_get request ''data'' = JObj (dirty_payload attrs ?cur)"
    if "Model.synced (heap w r)" "dirty_payload attrs ?cur \<noteq> []"
    using that by (intro sent) (simp_all add: save_payload_def)
  have d: "\<exists>request. calls ?run = calls w @ [request]
                    \<and> obj_get request ''data'' = JObj (Object_assign [] [?cur, attrs])"
    if "\<not> Model.synced (heap w r)" "Object_assign [] [?cur, attrs] \<noteq> []"
    using that by (intro sent) (simp_all add: save_payload_def)
  from a b whole c d show ?thesis by blast
qed

theorem Model_save_payload_witness:
  "Model_save_then (Some [(''x'', JNum 1)]) False 0 0 (Resolved (JArr [])) example_world
     = example_world\<lparr>settled := (settled example_world)
         (0 \<mapsto> Resolved (JObj [(''id'', JStr ''1''), (''x'', JNum 1)]))\<rparr>
   \<and> Model.promises (heap example_world 0) = []
   \<and> Model.promises
       (heap (snd (Model_run Model_save (Model_save_then (Some [(''x'', JNum 1)]) False) 0
                     example_world)) 0) = [0]
   \<and> settled (snd (Model_run Model_save (Model_save_then (Some [(''x'', JNum 1)]) False) 0
                     example_world)) 0
     = Some (Resolved (JObj [(''id'', JStr ''1''), (''x'', JNum 1)]))
   \<and> (\<exists>request.
         calls (Model_save_then (Some [(''x'', JNum 2)]) False 0 0 (Resolved (JArr []))
                  example_world) = [request]
         \<and> obj_get request ''data'' = JObj [(''x'', JNum 2)])
   \<and> (\<exists>request.
         calls (Model_save_then (Some [(''name'', JStr ''b'')]) False 1 0 (Resolved (JArr []))
                  example_world) = [request]
         \<and> obj_get request ''data'' = JObj [(''name'', JStr ''b'')])"
proof -
  have s: "Model.synced (heap example_world 0)"
    by (simp add: example_world_def example_heap_def synced_model_def)
  have u: "\<not> Model.synced (heap example_world 1)"
    by (simp add: example_world_def example_heap_def new_model_def)
  have cur: "attributes (heap example_world 0) = [(''id'', JStr ''1''), (''x'', JNum 1)]"
    by (simp add: example_world_def example_heap_def synced_model_def)
  have e: "dirty_payload [(''x'', JNum 1)] (attributes (heap example_world 0)) = []"
    by (simp add: dirty_payload_def Object_keys_def obj_get_def example_world_def
        example_heap_def synced_model_def)
  have d: "dirty_payload [(''x'', JNum 2)] (attributes (heap example_world 0)) = [(''x'', JNum 2)]"
    by (simp add: dirty_payload_def Object_keys_def obj_get_def example_world_def
        example_heap_def synced_model_def)
  have m: "Object_assign [] [attributes (heap example_world 1), [(''name'', JStr ''b'')]]
           = [(''name'', JStr ''b'')]"
    by (simp add: Object_assign_def assign_one_def example_world_def example_heap_def
        new_model_def)
  have c: "calls example_world = []" by (simp add: example_world_def)
  have n: "next_handle example_world = 0" by (simp add: example_world_def)
  have before: "Model.promises (heap example_world 0) = []"
    by (simp add: example_world_def example_heap_def synced_model_def)
  have p: "settled example_world (next_handle example_world) = None
           \<and> Promise_all (settled example_world) (Model.promises (heap example_world 0))
             = Some (Resolved (JArr []))"
    by (simp add: Promise_all_def before settled_example_world)
  note t1 = Model_save_payload [where w = example_world and promise = 0 and r = 0
      and attrs = "[(''x'', JNum 1)]" and exists = False and vs = "JArr []",
      OF settled_example_world]
  note t2 = Model_save_payload [where w = example_world and promise = 0 and r = 0
      and attrs = "[(''x'', JNum 2)]" and exists = False and vs = "JArr []",
      OF settled_example_world]
  note t3 = Model_save_payload [where w = example_world and promise = 0 and r = 1
      and attrs = "[(''name'', JStr ''b'')]" and exists = False and vs = "JArr []",
      OF settled_example_world]
  note empty = t1 [THEN conjunct1, THEN mp, OF s, THEN conjunct2, THEN conjunct1, THEN mp, OF e]
  have g1: "Model_save_then (Some [(''x'', JNum 1)]) False 0 0 (Resolved (JArr [])) example_world
     = example_world\<lparr>settled := (settled example_world)
         (0 \<mapsto> Resolved (JObj [(''id'', JStr ''1''), (''x'', JNum 1)]))\<rparr>"
    using empty [THEN conjunct1] unfolding cur .
  note whole = empty [THEN conjunct2, THEN mp, OF p]
  have g2: "Model.promises
       (heap (snd (Model_run Model_save (Model_save_then (Some [(''x'', JNum 1)]) False) 0
                     example_world)) 0) = [0]"
    unfolding whole using before n by simp
  have g3: "settled (snd (Model_run Model_save (Model_save_then (Some [(''x'', JNum 1)]) False) 0
                     example_world)) 0
     = Some (Resolved (JObj [(''id'', JStr ''1''), (''x'', JNum 1)]))"
    unfolding whole using cur n by simp
  have ne: "dirty_payload [(''x'', JNum 2)] (attributes (heap example_world 0)) \<noteq> []"
    using d by simp
  have g4: "\<exists>request.
         calls (Model_save_then (Some [(''x'', JNum 2)]) False 0 0 (Resolved (JArr []))
                  example_world) = [request]
         \<and> obj_get request ''data'' = JObj [(''x'', JNum 2)]"
    using t2 [THEN conjunct1, THEN mp, OF s, THEN conjunct2, THEN conjunct2, THEN mp, OF ne]
    unfolding d c by simp
  have nm: "\<not> Model.synced (heap example_world 1)
            \<and> Object_assign [] [attributes (heap example_world 1), [(''name'', JStr ''b'')]] \<noteq> []"
    using u m by simp
  have g5: "\<exists>request.
         calls (Model_save_then (Some [(''name'', JStr ''b'')]) False 1 0 (Resolved (JArr []))
                  example_world) = [request]
         \<and> obj_get request ''data'' = JObj [(''name'', JStr ''b'')]"
    using t3 [THEN conjunct2, THEN mp, OF nm] unfolding m c by simp
  from g1 before g2 g3 g4 g5 show ?thesis by (intro conjI)
qed

subsection \<open>Refusals\<close>

text \<open>
  Claim C7. When its callbacks run, \<^verbatim>\<open>Model.delete\<close> on a Model without identity,
  \<^verbatim>\<open>Collection.delete\<close> on a Collection without GET parameters and
  \<^verbatim>\<open>Collection.save\<close> without data on a Collection that is not new each reject the
  promise with their message. The state after is the state before but for the settlement
  of the promise (and, for \<^verbatim>\<open>Collection.save\<close>, the removal of the promise from the
  list): no request is made, and no Model, flag or cache changes.
\<close>

theorem policy_refusals:
  assumes "settled w promise = None"
  shows "(\<not> truthy (Model_id (idKey (resource w)) (heap w r)) \<longrightarrow>
            Model_delete_then r promise (Resolved vs) w
            = w\<lparr>settled := (settled w)(promise \<mapsto>
                   Rejected (JStr ''Can not delete model that we do not have an id for''))\<rparr>)
       \<and> (Object_keys (Collection.getParams c) = [] \<longrightarrow>
            Collection_delete_then promise (Resolved vs) (c, w)
            = (c, w\<lparr>settled := (settled w)(promise \<mapsto>
                   Rejected (JStr
                     ''Can not delete unfiltered collection (collection without any GET params''))\<rparr>))
       \<and> (\<not> Collection_new c w \<longrightarrow>
            Collection_save_then [] promise (Resolved vs) (c, w)
            = (c\<lparr>Collection.promises := splice_promise promise (Collection.promises c)\<rparr>,
               w\<lparr>settled := (settled w)(promise \<mapsto>
                   Rejected (JStr ''Cannot update collections, only create them''))\<rparr>))"
  using assms
  by (simp add: Model_delete_then_def Collection_delete_then_def Collection_save_then_def
      Collection_splice_def settle_promise_pending)

theorem policy_refusals_witness:
  "Model_delete_then 1 0 (Resolved (JArr [])) example_world
     = example_world\<lparr>settled := (settled example_world)(0 \<mapsto>
         Rejected (JStr ''Can not delete model that we do not have an id for''))\<rparr>
   \<and> Collection_delete_then 0 (Resolved (JArr []))
       (example_collection\<lparr>Collection.getParams := []\<rparr>, example_world)
     = (example_collection\<lparr>Collection.getParams := []\<rparr>,
        example_world\<lparr>settled := (settled example_world)(0 \<mapsto>
          Rejected (JStr
            ''Can not delete unfiltered collection (collection without any GET params''))\<rparr>)
   \<and> Collection_save_then [] 0 (Resolved (JArr [])) (example_collection, example_world)
     = (example_collection\<lparr>Collection.promises :=
          splice_promise 0 (Collection.promises example_collection)\<rparr>,
        example_world\<lparr>settled := (settled example_world)(0 \<mapsto>
          Rejected (JStr ''Cannot update collections, only create them''))\<rparr>)"
proof -
  have a: "\<not> truthy (Model_id (idKey (resource example_world)) (heap example_world 1))"
    by (simp add: example_world_def example_resource_def example_heap_def new_model_def
        Model_id_def obj_get_def)
  have b: "Object_keys (Collection.getParams (example_collection\<lparr>Collection.getParams := []\<rparr>)) = []"
    by (simp add: Object_keys_def)
  have c: "\<not> Collection_new example_collection example_world"
    by (simp add: Collection_new_def example_collection_def example_world_def example_heap_def
        synced_model_def)
  note t1 = policy_refusals [where w = example_world and promise = 0 and r = 1
      and vs = "JArr []" and c = "example_collection\<lparr>Collection.getParams := []\<rparr>",
      OF settled_example_world]
  note t2 = policy_refusals [where w = example_world and promise = 0 and r = 1
      and vs = "JArr []" and c = example_collection, OF settled_example_world]
  have g1: "Model_delete_then 1 0 (Resolved (JArr [])) example_world
     = example_world\<lparr>settled := (settled example_world)(0 \<mapsto>
         Rejected (JStr ''Can not delete model that we do not have an id for''))\<rparr>"
    by (rule t1 [THEN conjunct1, THEN mp, OF a])
  have g2: "Collection_delete_then 0 (Resolved (JArr []))
       (example_collection\<lparr>Collection.getParams := []\<rparr>, example_world)
     = (example_collection\<lparr>Collection.getParams := []\<rparr>,
        example_world\<lparr>settled := (settled example_world)(0 \<mapsto>
          Rejected (JStr
            ''Can not delete unfiltered collection (collection without any GET params''))\<rparr>)"
    by (rule t1 [THEN conjunct2, THEN conjunct1, THEN mp, OF b])
  have g3: "Collection_save_then [] 0 (Resolved (JArr [])) (example_collection, example_world)
     = (example_collection\<lparr>Collection.promises :=
          splice_promise 0 (Collection.promises example_collection)\<rparr>,
        example_world\<lparr>settled := (settled example_world)(0 \<mapsto>
          Rejected (JStr ''Cannot update collections, only create them''))\<rparr>)"
    by (rule t2 [THEN conjunct2, THEN conjunct2, THEN mp, OF c])
  from g1 g2 g3 show ?thesis by (intro conjI)
qed

subsection \<open>A rejected promise in the snapshot\<close>

lemma Promise_all_rejected:
  assumes "earlier \<in> set snapshot"
    and "ConditionalPromise_then tbl earlier = Some (Rejected why)"
  shows "\<exists>h reason. h \<in> set snapshot \<and> ConditionalPromise_then tbl h = Some (Rejected reason)
           \<and> Promise_all tbl snapshot = Some (Rejected reason)"
proof -
  let ?seen = "ConditionalPromise_then tbl"
  have "is_rejected (?seen earlier)" using assms(2) by (simp add: is_rejected_def)
  with assms(1) have "List.find (\<lambda>h. is_rejected (?seen h)) snapshot \<noteq> None"
    by (auto simp: find_None_iff)
  then obtain h where f: "List.find (\<lambda>h. is_rejected (?seen h)) snapshot = Some h"
    by auto
  then have hs: "h \<in> set snapshot" and rj: "is_rejected (?seen h)"
    by (auto simp: find_Some_iff)
  from rj obtain reason where r: "?seen h = Some (Rejected reason)"
    by (auto simp: is_rejected_def split: option.splits settle.splits)
  have "Promise_all tbl snapshot = Some (Rejected reason)"
    using f r by (simp add: Promise_all_def)
  with hs r show ?thesis by blast
qed

text \<open>
  Claim C9. If a promise of the snapshot that a new \<^verbatim>\<open>fetch\<close>, \<^verbatim>\<open>save\<close> or
  \<^verbatim>\<open>delete\<close> awaits reports a rejection, \<^verbatim>\<open>Promise.all\<close> over the snapshot is
  rejected with the reason of a rejected promise of the snapshot (with that very reason
  when it is the only rejected one), and the callbacks of the new operation reject its
  promise with the same reason, make no request and change no Model, Collection or cache.
  This holds for the three methods of a Model and of a Collection.

  The operation as a whole does change the Model or Collection: the call has added the new
  promise to \<^verbatim>\<open>promises\<close>, and the callback that rejects it has no \<^verbatim>\<open>splice\<close>. A call
  on a Model or Collection whose list holds a rejected promise leaves the state of before
  but for the new promise, which is rejected and stays in the list, where it rejects every
  later operation in turn.
\<close>

theorem prior_rejection_poisons:
  assumes "earlier \<in> set snapshot"
    and "ConditionalPromise_then (settled w) earlier = Some (Rejected why)"
    and "settled w promise = None"
  shows "\<exists>reason.
           Promise_all (settled w) snapshot = Some (Rejected reason)
         \<and> (\<exists>h\<in>set snapshot. ConditionalPromise_then (settled w) h = Some (Rejected reason))
         \<and> ((\<forall>h\<in>set snapshot. is_rejected (ConditionalPromise_then (settled w) h) \<longrightarrow> h = earlier)
              \<longrightarrow> reason = why)
         \<and> Model_fetch_then force r promise (Rejected reason) w
           = w\<lparr>settled := (settled w)(promise \<mapsto> Rejected reason)\<rparr>
         \<and> Model_save_then attrs exists r promise (Rejected reason) w
           = w\<lparr>settled := (settled w)(promise \<mapsto> Rejected reason)\<rparr>
         \<and> Model_delete_then r promise (Rejected reason) w
           = w\<lparr>settled := (settled w)(promise \<mapsto> Rejected reason)\<rparr>
         \<and> Collection_fetch_then force promise (Rejected reason) (c, w)
           = (c, w\<lparr>settled := (settled w)(promise \<mapsto> Rejected reason)\<rparr>)
         \<and> Collection_save_then data promise (Rejected reason) (c, w)
           = (c, w\<lparr>settled := (settled w)(promise \<mapsto> Rejected reason)\<rparr>)
         \<and> Collection_delete_then promise (Rejected reason) (c, w)
           = (c, w\<lparr>settled := (settled w)(promise \<mapsto> Rejected reason)\<rparr>)
         \<and> (snapshot = Model.promises (heap w r) \<and> promise = next_handle w \<longrightarrow>
              Model_run Model_fetch (Model_fetch_then force) r w
              = (promise,
                 w\<lparr>heap := (heap w)
                      (r := (heap w r)\<lparr>Model.promises := Model.promises (heap w r) @ [promise]\<rparr>),
                   settled := (settled w)(promise \<mapsto> Rejected reason),
                   next_handle := Suc promise\<rparr>)
            \<and> Model_run Model_save (Model_save_then attrs exists) r w
              = Model_run Model_fetch (Model_fetch_then force) r w
            \<and> Model_run Model_delete Model_delete_then r w
              = Model_run Model_fetch (Model_fetch_then force) r w)
         \<and> (snapshot = Collection.promises c \<and> promise = next_handle w \<longrightarrow>
              Collection_run Collection_fetch (Collection_fetch_then force) (c, w)
              = (promise,
                 c\<lparr>Collection.promises := Collection.promises c @ [promise]\<rparr>,
                 w\<lparr>settled := (settled w)(promise \<mapsto> Rejected reason),
                   next_handle := Suc promise\<rparr>)
            \<and> Collection_run Collection_save (Collection_save_then data) (c, w)
              = Collection_run Collection_fetch (Collection_fetch_then force) (c, w)
            \<and> Collection_run Collection_delete Collection_delete_then (c, w)
              = Collection_run Collection_fetch (Collection_fetch_then force) (c, w))"
proof -
  from Promise_all_rejected [of earlier snapshot "settled w" why] assms(1,2)
  obtain h reason where hs: "h \<in> set snapshot"
    and r: "ConditionalPromise_then (settled w) h = Some (Rejected reason)"
    and p: "Promise_all (settled w) snapshot = Some (Rejected reason)"
    by blast
  have only: "(\<forall>h\<in>set snapshot. is_rejected (ConditionalPromise_then (settled w) h) \<longrightarrow> h = earlier)
              \<longrightarrow> reason = why"
  proof
    assume u: "\<forall>h\<in>set snapshot. is_rejected (ConditionalPromise_then (settled w) h) \<longrightarrow> h = earlier"
    have "is_rejected (ConditionalPromise_then (settled w) h)" using r by (simp add: is_rejected_def)
    with u hs have "h = earlier" by blast
    with r assms(2) show "reason = why" by simp
  qed
  have cb: "Model_fetch_then force r promise (Rejected reason) w
              = w\<lparr>settled := (settled w)(promise \<mapsto> Rejected reason)\<rparr>"
    "Model_save_then attrs exists r promise (Rejected reason) w
              = w\<lparr>settled := (settled w)(promise \<mapsto> Rejected reason)\<rparr>"
    "Model_delete_then r promise (Rejected reason) w
              = w\<lparr>settled := (settled w)(promise \<mapsto> Rejected reason)\<rparr>"
    "Collection_fetch_then force promise (Rejected reason) (c, w)
              = (c, w\<lparr>settled := (settled w)(promise \<mapsto> Rejected reason)\<rparr>)"
    "Collection_save_then data promise (Rejected reason) (c, w)
              = (c, w\<lparr>settled := (settled w)(promise \<mapsto> Rejected reason)\<rparr>)"
    "Collection_delete_then promise (Rejected reason) (c, w)
              = (c, w\<lparr>settled := (settled w)(promise \<mapsto> Rejected reason)\<rparr>)"
    using assms(3)
    by (simp_all add: Model_fetch_then_def Model_save_then_def Model_delete_then_def
        Collection_fetch_then_def Collection_save_then_def Collection_delete_then_def
        settle_promise_pending)
  have model: "Model_run Model_fetch (Model_fetch_then force) r w
              = (promise,
                 w\<lparr>heap := (heap w)
                      (r := (heap w r)\<lparr>Model.promises := Model.promises (heap w r) @ [promise]\<rparr>),
                   settled := (settled w)(promise \<mapsto> Rejected reason),
                   next_handle := Suc promise\<rparr>)
            \<and> Model_run Model_save (Model_save_then attrs exists) r w
              = Model_run Model_fetch (Model_fetch_then force) r w
            \<and> Model_run Model_delete Model_delete_then r w
              = Model_run Model_fetch (Model_fetch_then force) r w"
    if "snapshot = Model.promises (heap w r)" "promise = next_handle w"
    using that p assms(3)
    by (simp add: Model_run_def Model_fetch_def Model_save_def Model_delete_def
        Model_push_promise_def Let_def update_model_def Model_fetch_then_def
        Model_save_then_def Model_delete_then_def settle_promise_def)
  have collection: "Collection_run Collection_fetch (Collection_fetch_then force) (c, w)
              = (promise,
                 c\<lparr>Collection.promises := Collection.promises c @ [promise]\<rparr>,
                 w\<lparr>settled := (settled w)(promise \<mapsto> Rejected reason),
                   next_handle := Suc promise\<rparr>)
            \<and> Collection_run Collection_save (Collection_save_then data) (c, w)
              = Collection_run Collection_fetch (Collection_fetch_then force) (c, w)
            \<and> Collection_run Collection_delete Collection_delete_then (c, w)
              = Collection_run Collection_fetch (Collection_fetch_then force) (c, w)"
    if "snapshot = Collection.promises c" "promise = next_handle w"
    using that p assms(3)
    by (simp add: Collection_run_def Collection_fetch_def Collection_save_def
        Collection_delete_def Collection_push_promise_def Let_def Collection_fetch_then_def
        Collection_save_then_def Collection_delete_then_def settle_promise_def)
  from p hs r only cb model collection show ?thesis by blast
qed

theorem prior_rejection_poisons_witness:
  "fst (snd second_fetch) = [0]
   \<and> Model.promises (heap failed_fetch_world 0) = [1]
   \<and> Promise_all (settled failed_fetch_world) [0] = Some (Rejected server_error)
   \<and> poisoned_world
     = failed_fetch_world\<lparr>settled := (settled failed_fetch_world)(1 \<mapsto> Rejected server_error)\<rparr>
   \<and> Model_run Model_save (Model_save_then (Some [(''x'', JNum 2)]) False) 0 poisoned_world
     = (2, poisoned_world
             \<lparr>heap := (heap poisoned_world)
                (0 := (heap poisoned_world 0)\<lparr>Model.promises := [1, 2]\<rparr>),
              settled := (settled poisoned_world)(2 \<mapsto> Rejected server_error),
              next_handle := 3\<rparr>)
   \<and> Collection_run Collection_fetch (Collection_fetch_then True) (snd refused_delete)
     = (1, (fst (snd refused_delete))\<lparr>Collection.promises := [0, 1]\<rparr>,
        (snd (snd refused_delete))
          \<lparr>settled := (settled (snd (snd refused_delete)))
             (1 \<mapsto> Rejected (JStr
                ''Can not delete unfiltered collection (collection without any GET params'')),
           next_handle := 2\<rparr>)"
proof -
  let ?w = failed_fetch_world
  have snap: "fst (snd second_fetch) = [0]" by code_simp
  have second: "fst second_fetch = 1" by code_simp
  have left: "Model.promises (heap ?w 0) = [1]" by code_simp
  have a1: "(0::nat) \<in> set [0]" by simp
  have a2: "ConditionalPromise_then (settled ?w) 0 = Some (Rejected server_error)" by code_simp
  have a3: "settled ?w 1 = None" by code_simp
  from prior_rejection_poisons [where earlier = 0 and snapshot = "[0]" and w = ?w
      and promise = 1 and force = True and r = 0, OF a1 a2 a3]
  obtain reason where p: "Promise_all (settled ?w) [0] = Some (Rejected reason)"
    and u: "(\<forall>h\<in>set [0]. is_rejected (ConditionalPromise_then (settled ?w) h) \<longrightarrow> h = 0)
            \<longrightarrow> reason = server_error"
    and f: "Model_fetch_then True 0 1 (Rejected reason) ?w
            = ?w\<lparr>settled := (settled ?w)(1 \<mapsto> Rejected reason)\<rparr>"
    by blast
  have "\<forall>h\<in>set [0::nat]. is_rejected (ConditionalPromise_then (settled ?w) h) \<longrightarrow> h = 0"
    by simp
  with u have reason: "reason = server_error" by blast
  have g3: "Promise_all (settled ?w) [0] = Some (Rejected server_error)"
    using p reason by simp
  have g4: "poisoned_world = ?w\<lparr>settled := (settled ?w)(1 \<mapsto> Rejected server_error)\<rparr>"
    using f reason by (simp add: poisoned_world_def snap second g3)
  let ?v = poisoned_world
  have b0: "Model.promises (heap ?v 0) = [1]" using left by (simp add: g4)
  have b1: "(1::nat) \<in> set [1]" by simp
  have b2: "ConditionalPromise_then (settled ?v) 1 = Some (Rejected server_error)"
    by (simp add: g4 ConditionalPromise_then_def)
  have n: "next_handle ?v = 2" unfolding g4 by code_simp
  have b3: "settled ?v 2 = None" unfolding g4 by code_simp
  from prior_rejection_poisons [where earlier = 1 and snapshot = "[1]" and w = ?v
      and promise = 2 and force = True and r = 0 and attrs = "Some [(''x'', JNum 2)]"
      and exists = False, OF b1 b2 b3]
  obtain reason' where u': "(\<forall>h\<in>set [1]. is_rejected (ConditionalPromise_then (settled ?v) h) \<longrightarrow> h = 1)
            \<longrightarrow> reason' = server_error"
    and m: "[1] = Model.promises (heap ?v 0) \<and> 2 = next_handle ?v \<longrightarrow>
              Model_run Model_fetch (Model_fetch_then True) 0 ?v
              = (2,
                 ?v\<lparr>heap := (heap ?v)
                      (0 := (heap ?v 0)\<lparr>Model.promises := Model.promises (heap ?v 0) @ [2]\<rparr>),
                   settled := (settled ?v)(2 \<mapsto> Rejected reason'),
                   next_handle := Suc 2\<rparr>)
            \<and> Model_run Model_save (Model_save_then (Some [(''x'', JNum 2)]) False) 0 ?v
              = Model_run Model_fetch (Model_fetch_then True) 0 ?v
            \<and> Model_run Model_delete Model_delete_then 0 ?v
              = Model_run Model_fetch (Model_fetch_then True) 0 ?v"
    by blast
  have "\<forall>h\<in>set [1::nat]. is_rejected (ConditionalPromise_then (settled ?v) h) \<longrightarrow> h = 1"
    by simp
  with u' have reason': "reason' = server_error" by blast
  have g5: "Model_run Model_save (Model_save_then (Some [(''x'', JNum 2)]) False) 0 ?v
     = (2, ?v\<lparr>heap := (heap ?v)(0 := (heap ?v 0)\<lparr>Model.promises := [1, 2]\<rparr>),
              settled := (settled ?v)(2 \<mapsto> Rejected server_error),
              next_handle := 3\<rparr>)"
    using m b0 n reason' by simp
  let ?c = "fst (snd refused_delete)" and ?d = "snd (snd refused_delete)"
  let ?why = "JStr ''Can not delete unfiltered collection (collection without any GET params''"
  have c0: "Collection.promises ?c = [0]" by code_simp
  have c1: "(0::nat) \<in> set [0]" by simp
  have c2: "ConditionalPromise_then (settled ?d) 0 = Some (Rejected ?why)" by code_simp
  have c3: "settled ?d 1 = None" by code_simp
  have cn: "next_handle ?d = 1" by code_simp
  from prior_rejection_poisons [where earlier = 0 and snapshot = "[0]" and w = ?d
      and promise = 1 and force = True and c = ?c, OF c1 c2 c3]
  obtain reason2 where u2: "(\<forall>h\<in>set [0]. is_rejected (ConditionalPromise_then (settled ?d) h) \<longrightarrow> h = 0)
            \<longrightarrow> reason2 = ?why"
    and k: "[0] = Collection.promises ?c \<and> 1 = next_handle ?d \<longrightarrow>
              Collection_run Collection_fetch (Collection_fetch_then True) (?c, ?d)
              = (1,
                 ?c\<lparr>Collection.promises := Collection.promises ?c @ [1]\<rparr>,
                 ?d\<lparr>settled := (settled ?d)(1 \<mapsto> Rejected reason2),
                   next_handle := Suc 1\<rparr>)
            \<and> Collection_run Collection_save (Collection_save_then data) (?c, ?d)
              = Collection_run Collection_fetch (Collection_fetch_then True) (?c, ?d)
            \<and> Collection_run Collection_delete Collection_delete_then (?c, ?d)
              = Collection_run Collection_fetch (Collection_fetch_then True) (?c, ?d)"
    by blast
  have "\<forall>h\<in>set [0::nat]. is_rejected (ConditionalPromise_then (settled ?d) h) \<longrightarrow> h = 0"
    by simp
  with u2 have reason2: "reason2 = ?why" by blast
  have g6: "Collection_run Collection_fetch (Collection_fetch_then True) (snd refused_delete)
     = (1, ?c\<lparr>Collection.promises := [0, 1]\<rparr>,
        ?d\<lparr>settled := (settled ?d)(1 \<mapsto> Rejected ?why), next_handle := 2\<rparr>)"
    using k c0 cn reason2 by simp
  from snap left g3 g4 g5 g6 show ?thesis by (intro conjI)
qed

subsection \<open>Promises that stay in the list\<close>

text \<open>
  Claim C3. The code does not remove every settled promise from the list. When
  \<^verbatim>\<open>fetch()\<close> is called on a synced Model whose earlier promises are resolved, the
  callbacks resolve the new promise with the attributes, make no request, and leave the
  promise in \<^verbatim>\<open>promises\<close>: the branch that answers without a request has no
  \<^verbatim>\<open>splice\<close>.
\<close>

theorem Model_fetch_keeps_settled_handle:
  assumes "Model.synced (heap w r)"
    and "settled w (next_handle w) = None"
    and "Promise_all (settled w) (Model.promises (heap w r)) = Some (Resolved vs)"
  shows "settled (snd (Model_run Model_fetch (Model_fetch_then False) r w))
           (fst (Model_run Model_fetch (Model_fetch_then False) r w))
         = Some (Resolved (Model_data (heap w r)))
       \<and> fst (Model_run Model_fetch (Model_fetch_then False) r w)
           \<in> set (Model.promises (heap (snd (Model_run Model_fetch (Model_fetch_then False) r w)) r))
       \<and> calls (snd (Model_run Model_fetch (Model_fetch_then False) r w)) = calls w"
  using assms
  by (simp add: Model_run_def Model_fetch_def Model_push_promise_def Let_def update_model_def
      Model_fetch_then_def settle_promise_def Model_data_def)

theorem Model_fetch_keeps_settled_handle_witness:
  "settled (snd (Model_run Model_fetch (Model_fetch_then False) 0 example_world)) 0
     = Some (Resolved (JObj [(''id'', JStr ''1''), (''x'', JNum 1)]))
   \<and> Model.promises (heap (snd (Model_run Model_fetch (Model_fetch_then False) 0 example_world)) 0)
     = [0]"
proof -
  have s: "Model.synced (heap example_world 0)"
    by (simp add: example_world_def example_heap_def synced_model_def)
  have n: "settled example_world (next_handle example_world) = None"
    by (simp add: example_world_def)
  have p: "Promise_all (settled example_world) (Model.promises (heap example_world 0))
           = Some (Resolved (JArr []))"
    by (simp add: Promise_all_def ConditionalPromise_then_def example_world_def example_heap_def synced_model_def)
  have f: "fst (Model_run Model_fetch (Model_fetch_then False) 0 example_world) = 0"
    by (simp add: Model_run_def Model_fetch_def Model_push_promise_def Let_def example_world_def)
  have d: "Model_data (heap example_world 0) = JObj [(''id'', JStr ''1''), (''x'', JNum 1)]"
    by (simp add: Model_data_def example_world_def example_heap_def synced_model_def)
  have l: "Model.promises (heap (snd (Model_run Model_fetch (Model_fetch_then False) 0 example_world)) 0)
     = [0]"
    by (simp add: Model_run_def Model_fetch_def Model_push_promise_def Let_def update_model_def
      Model_fetch_then_def settle_promise_def Promise_all_def ConditionalPromise_then_def
      example_world_def example_heap_def synced_model_def)
  from Model_fetch_keeps_settled_handle [OF s n p] f d l show ?thesis by simp
qed

subsection \<open>Malformed responses\<close>

text \<open>
  What \<^verbatim>\<open>Collection.fetch\<close> does with a response body that is neither an array nor an
  object with \<^verbatim>\<open>results\<close>: it logs at the severity \<open>Error\<close>, rejects with the
  response and leaves the Collection as it is, but for the removal of the promise.
\<close>

lemma Collection_fetch_malformed:
  assumes "settled w promise = None"
    and "\<not> Array_isArray (obj_get response ''data'')"
    and "envelope_results (obj_get response ''data'') = JUndefined"
  shows "Collection_fetch_response promise (Success response) (c, w)
         = (Collection_splice promise c,
            w\<lparr>log := log w @ [Logging Error ''Data appears to be malformed''
                                 (obj_get response ''data'')],
              settled := (settled w)(promise \<mapsto> Rejected (JObj response))\<rparr>)"
  using assms
  by (simp add: Collection_fetch_response_def Let_def settle_promise_def logging_def)

text \<open>
  Claim C8. \<^verbatim>\<open>Collection.save\<close> does not log a malformed response at error severity:
  when the body of the response is not an array, the callback logs it at the severity
  \<open>Debug\<close>. It rejects the promise with the response and leaves the members and the
  index as they are.
\<close>

theorem Collection_save_malformed:
  assumes "settled w promise = None"
    and "\<not> Array_isArray (obj_get response ''data'')"
  shows "Collection_save_response promise (Success response) (c, w)
         = (Collection_splice promise c,
            w\<lparr>log := log w @ [Logging Debug ''Data appears to be malformed''
                                 (obj_get response ''data'')],
              settled := (settled w)(promise \<mapsto> Rejected (JObj response))\<rparr>)"
  using assms
  by (simp add: Collection_save_response_def Let_def settle_promise_def logging_def)

theorem Collection_save_malformed_witness:
  "log (snd (Collection_save_response 0 (Success [(''data'', JObj [])])
               (example_collection, example_world)))
   = [Logging Debug ''Data appears to be malformed'' (JObj [])]"
proof -
  have a: "\<not> Array_isArray (obj_get [(''data'', JObj [])] ''data'')"
    by (simp add: Array_isArray_def obj_get_def)
  have b: "obj_get [(''data'', JObj [])] ''data'' = JObj []"
    by (simp add: obj_get_def)
  from Collection_save_malformed [OF settled_example_world a, of 0 example_collection] b
  show ?thesis by (simp add: example_world_def)
qed


section \<open>Insertion into the cache of the Resource\<close>

lemma obj_set_same: "map_of ob k = Some v \<Longrightarrow> obj_set k v ob = ob"
proof (induction ob)
  case Nil
  then show ?case by simp
next
  case (Cons p ob)
  obtain k' v' where p: "p = (k', v')" by (cases p)
  show ?case
  proof (cases "k' = k")
    case True
    with Cons.prems show ?thesis by (simp add: p)
  next
    case False
    with Cons.prems have m: "map_of ob k = Some v" by (simp add: p)
    then have "k \<in> fst ` set ob" by (metis map_of_eq_None_iff option.distinct(1))
    with False m Cons.IH show ?thesis by (simp add: p)
  qed
qed

lemma Model_set_string_identity:
  assumes "Model_id idk src = JStr s"
  shows "Model_set idk (JObj (attributes src)) m
         = Inr (JObj (attributes src),
                m\<lparr>attributes := assign_one (attributes m) (attributes src)\<rparr>)"
proof -
  have g: "obj_get (attributes src) idk = JStr s"
    using assms by (simp add: Model_id_def)
  then have "map_of (attributes src) idk = Some (JStr s)"
    by (auto simp: obj_get_def split: option.splits)
  then have "obj_set idk (JStr s) (attributes src) = attributes src"
    by (rule obj_set_same)
  with g show ?thesis
    by (simp add: Model_set_def is_object_def has_prop_def get_prop_def set_prop_def
        own_props_def Let_def)
qed

lemma getCache_cache_put:
  "getCache (cache_put en key r tbl) en key = Some r"
  by (simp add: getCache_def cache_put_def)

lemma getCache_getCache_table:
  "getCache (getCache_table tbl en) en = getCache tbl en"
  by (simp add: getCache_def getCache_table_def)

text \<open>What the insertion of an instance with a string identity does.\<close>

lemma addModel_instance_identity:
  assumes "addModel_instance r en w = Inr (r1, w1)"
    and "Model_id (idKey (resource w)) (heap w r) = JStr s" and "s \<noteq> []"
  shows "getCache (Resource.models (resource w1)) en (model_cacheKey (idKey (resource w)) (heap w r))
           = Some r1"
    and "idKey (resource w1) = idKey (resource w)"
    and "next_ref w1 = next_ref w"
    and "getCache (Resource.models (resource w)) en
           (model_cacheKey (idKey (resource w)) (heap w r)) = None
         \<Longrightarrow> r1 = r \<and> heap w1 = heap w"
    and "getCache (Resource.models (resource w)) en
           (model_cacheKey (idKey (resource w)) (heap w r)) = Some r0
         \<Longrightarrow> r1 = r0
             \<and> heap w1 = (heap w)(r0 := (heap w r0)\<lparr>attributes :=
                   assign_one (attributes (heap w r0)) (attributes (heap w r))\<rparr>)"
proof -
  let ?idk = "idKey (resource w)"
  let ?key = "model_cacheKey ?idk (heap w r)"
  have t: "truthy (Model_id ?idk (heap w r))" using assms(2,3) by simp
  note ms = Model_set_string_identity [OF assms(2)]
  show "getCache (Resource.models (resource w1)) en ?key = Some r1"
    using assms(1) t
    by (auto simp: addModel_instance_def Let_def ms getCache_cache_put getCache_getCache_table
        split: option.splits)
  show "idKey (resource w1) = ?idk"
    using assms(1) t
    by (auto simp: addModel_instance_def Let_def ms split: option.splits)
  show "next_ref w1 = next_ref w"
    using assms(1) t
    by (auto simp: addModel_instance_def Let_def ms split: option.splits)
  show "r1 = r \<and> heap w1 = heap w"
    if "getCache (Resource.models (resource w)) en ?key = None"
    using assms(1) t that
    by (auto simp: addModel_instance_def Let_def)
  show "r1 = r0 \<and> heap w1 = (heap w)(r0 := (heap w r0)\<lparr>attributes :=
                   assign_one (attributes (heap w r0)) (attributes (heap w r))\<rparr>)"
    if "getCache (Resource.models (resource w)) en ?key = Some r0"
    using assms(1) t that
    by (auto simp: addModel_instance_def Let_def ms own_props_def)
qed

text \<open>An insertion is the insertion of an instance, in a state that holds the Model.\<close>

lemma addModel_as_instance:
  assumes "addModel x gp en w = Inr (r1, w1)" and "item_model x gp en w = Inr m"
  shows "\<exists>r w0. addModel_instance r en w0 = Inr (r1, w1) \<and> heap w0 r = m
           \<and> resource w0 = resource w
           \<and> (\<forall>r'. r' < next_ref w \<longrightarrow> r' \<noteq> r \<longrightarrow> heap w0 r' = heap w r')
           \<and> (x = Instance r \<and> w0 = w \<or> r = next_ref w \<and> next_ref w0 = Suc (next_ref w))"
proof (cases x)
  case (Data d)
  with assms show ?thesis
    by (auto simp: addModel_def item_model_def createModel_def
        intro!: exI [of _ "next_ref w"]
                exI [of _ "w\<lparr>heap := (heap w)(next_ref w := m), next_ref := Suc (next_ref w)\<rparr>"])
next
  case (Instance r)
  with assms show ?thesis
    by (auto simp: addModel_def item_model_def intro!: exI [of _ r] exI [of _ w])
qed

lemma model_cacheKey_same_getParams:
  assumes "Model_id idk m1 = Model_id idk m2" and "Model.getParams m1 = Model.getParams m2"
  shows "model_cacheKey idk m1 = model_cacheKey idk m2"
  using assms by (simp add: model_cacheKey_def)

text \<open>
  Claim C4, as the code has it. The key of a cache slot is the cache key of the Model: the
  JSON text of its identity merged with its GET parameters, so that Models with the same
  identity and equal GET parameters have the same key. When two insertions into the cache
  of one endpoint add Models (given as instances, or made of the data) with the same
  identity string and the same cache key, both return the same reference, the cache holds
  that reference under the key, and after the second insertion the attributes of that
  Model are the merge of the attributes of both insertions: the attributes of the first
  Model with those of the second merged into them when the slot was empty before the first
  insertion, and both merged in that order into the attributes of the Model that the slot
  held before otherwise.
\<close>

theorem addModel_same_identity:
  assumes first: "addModel x gp en w = Inr (r1, w1)"
    and second: "addModel y gp' en w1 = Inr (r2, w2)"
    and m1: "item_model x gp en w = Inr m1"
    and m2: "item_model y gp' en w1 = Inr m2"
    and id1: "Model_id (idKey (resource w)) m1 = JStr s"
    and id2: "Model_id (idKey (resource w)) m2 = JStr s"
    and s: "s \<noteq> []"
    and key: "model_cacheKey (idKey (resource w)) m1 = model_cacheKey (idKey (resource w)) m2"
    and alloc: "r1 < next_ref w1"
  shows "r2 = r1
       \<and> getCache (Resource.models (resource w2)) en (model_cacheKey (idKey (resource w)) m2)
           = Some r1
       \<and> attributes (heap w2 r1) = assign_one (attributes (heap w1 r1)) (attributes m2)
       \<and> (getCache (Resource.models (resource w)) en (model_cacheKey (idKey (resource w)) m1)
            = None \<longrightarrow>
          attributes (heap w2 r1) = assign_one (attributes m1) (attributes m2))
       \<and> (\<forall>r0. getCache (Resource.models (resource w)) en
                  (model_cacheKey (idKey (resource w)) m1) = Some r0 \<and> r0 < next_ref w \<longrightarrow>
            attributes (heap w2 r1)
            = assign_one (assign_one (attributes (heap w r0)) (attributes m1)) (attributes m2))"
proof -
  let ?idk = "idKey (resource w)"
  let ?slot = "getCache (Resource.models (resource w)) en (model_cacheKey ?idk m1)"
  from addModel_as_instance [OF first m1]
  obtain ra wa where ia: "addModel_instance ra en wa = Inr (r1, w1)"
    and ha: "heap wa ra = m1" and ra: "resource wa = resource w"
    and olda: "\<forall>r'. r' < next_ref w \<longrightarrow> r' \<noteq> ra \<longrightarrow> heap wa r' = heap w r'"
    and whicha: "x = Instance ra \<and> wa = w \<or> ra = next_ref w \<and> next_ref wa = Suc (next_ref w)"
    by blast
  have ida: "Model_id (idKey (resource wa)) (heap wa ra) = JStr s"
    using id1 ha ra by simp
  from addModel_instance_identity(1,2) [OF ia] id1 s ha ra
  have c1: "getCache (Resource.models (resource w1)) en (model_cacheKey ?idk m1) = Some r1"
    and k1: "idKey (resource w1) = ?idk"
    by simp_all
  from addModel_as_instance [OF second m2]
  obtain rb wb where ib: "addModel_instance rb en wb = Inr (r2, w2)"
    and hb: "heap wb rb = m2" and rb: "resource wb = resource w1"
    and old: "\<forall>r'. r' < next_ref w1 \<longrightarrow> r' \<noteq> rb \<longrightarrow> heap wb r' = heap w1 r'"
    and which: "y = Instance rb \<and> wb = w1 \<or> rb = next_ref w1 \<and> next_ref wb = Suc (next_ref w1)"
    by blast
  have idb: "Model_id (idKey (resource wb)) (heap wb rb) = JStr s"
    using id2 hb rb k1 by simp
  have cb: "getCache (Resource.models (resource wb)) en
              (model_cacheKey (idKey (resource wb)) (heap wb rb)) = Some r1"
    using c1 key hb rb k1 by simp
  from addModel_instance_identity(5) [OF ib idb s cb]
  have r: "r2 = r1"
    and h2: "heap w2 = (heap wb)(r1 := (heap wb r1)\<lparr>attributes :=
               assign_one (attributes (heap wb r1)) (attributes (heap wb rb))\<rparr>)"
    by simp_all
  from addModel_instance_identity(1) [OF ib idb s]
  have c2: "getCache (Resource.models (resource w2)) en (model_cacheKey ?idk m2) = Some r2"
    using hb rb k1 by simp
  have same: "heap wb r1 = heap w1 r1"
  proof (cases "wb = w1")
    case True
    then show ?thesis by simp
  next
    case False
    with which have "rb = next_ref w1" by blast
    with alloc have "r1 \<noteq> rb" by simp
    with old alloc show ?thesis by blast
  qed
  have after: "attributes (heap w2 r1) = assign_one (attributes (heap w1 r1)) (attributes m2)"
    using h2 same hb by simp
  have empty: "attributes (heap w2 r1) = assign_one (attributes m1) (attributes m2)"
    if n: "?slot = None"
  proof -
    have "getCache (Resource.models (resource wa)) en
            (model_cacheKey (idKey (resource wa)) (heap wa ra)) = None"
      using n ha ra by simp
    from addModel_instance_identity(4) [OF ia ida s this]
    have "attributes (heap w1 r1) = attributes m1" using ha by simp
    with after show ?thesis by simp
  qed
  have held: "attributes (heap w2 r1)
              = assign_one (assign_one (attributes (heap w r0)) (attributes m1)) (attributes m2)"
    if h: "?slot = Some r0" and a0: "r0 < next_ref w" for r0
  proof -
    have "getCache (Resource.models (resource wa)) en
            (model_cacheKey (idKey (resource wa)) (heap wa ra)) = Some r0"
      using h ha ra by simp
    from addModel_instance_identity(5) [OF ia ida s this]
    have e: "r1 = r0"
      and h1: "heap w1 = (heap wa)(r0 := (heap wa r0)\<lparr>attributes :=
                 assign_one (attributes (heap wa r0)) (attributes (heap wa ra))\<rparr>)"
      by simp_all
    have "heap wa r0 = heap w r0"
    proof (cases "wa = w")
      case True
      then show ?thesis by simp
    next
      case False
      with whicha have "ra = next_ref w" by blast
      with a0 have "r0 \<noteq> ra" by simp
      with olda a0 show ?thesis by blast
    qed
    with h1 e ha
    have "attributes (heap w1 r1) = assign_one (attributes (heap w r0)) (attributes m1)"
      by simp
    with after show ?thesis by simp
  qed
  from r c2 after empty held show ?thesis by blast
qed

lemma Inr_projr: "\<not> isl x \<Longrightarrow> x = Inr (fst (projr x), snd (projr x))"
  by (cases x) auto

lemma Inr_projr_plain: "\<not> isl x \<Longrightarrow> x = Inr (projr x)"
  by (cases x) auto

theorem addModel_same_identity_witness:
  "fst (projr second_insertion) = fst (projr first_insertion)
   \<and> attributes (heap (snd (projr second_insertion)) (fst (projr first_insertion)))
     = [(''id'', JStr ''1''), (''a'', JNum 1), (''b'', JNum 2)]
   \<and> fst (projr third_insertion) = fst (projr second_insertion)
   \<and> attributes (heap (snd (projr third_insertion)) (fst (projr second_insertion)))
     = [(''id'', JStr ''1''), (''a'', JNum 1), (''b'', JNum 2), (''c'', JNum 3)]
   \<and> fst (projr undefined_param_insertion) = fst (projr first_insertion)"
proof -
  let ?x = "Data (JObj [(''id'', JNum 1), (''a'', JNum 1)])"
  let ?y = "Data (JObj [(''id'', JStr ''1''), (''b'', JNum 2)])"
  let ?z = "Data (JObj [(''id'', JStr ''1''), (''c'', JNum 3)])"
  let ?w1 = "snd (projr first_insertion)"
  let ?r1 = "fst (projr first_insertion)"
  let ?w2 = "snd (projr second_insertion)"
  let ?r2 = "fst (projr second_insertion)"
  let ?m1 = "projr (item_model ?x [] JUndefined example_world)"
  let ?m2 = "projr (item_model ?y [] JUndefined ?w1)"
  let ?m3 = "projr (item_model ?z [] JUndefined ?w2)"
  have "\<not> isl first_insertion" by code_simp
  then have first: "addModel ?x [] JUndefined example_world = Inr (?r1, ?w1)"
    using Inr_projr [of first_insertion] by (simp add: first_insertion_def)
  have "\<not> isl second_insertion" by code_simp
  then have second: "addModel ?y [] JUndefined ?w1 = Inr (?r2, ?w2)"
    using Inr_projr [of second_insertion] by (simp add: second_insertion_def)
  have "\<not> isl third_insertion" by code_simp
  then have third: "addModel ?z [] JUndefined ?w2
                    = Inr (fst (projr third_insertion), snd (projr third_insertion))"
    using Inr_projr [of third_insertion] by (simp add: third_insertion_def)
  have "\<not> isl (item_model ?x [] JUndefined example_world)" by code_simp
  then have m1: "item_model ?x [] JUndefined example_world = Inr ?m1"
    by (rule Inr_projr_plain)
  have "\<not> isl (item_model ?y [] JUndefined ?w1)" by code_simp
  then have m2: "item_model ?y [] JUndefined ?w1 = Inr ?m2"
    by (rule Inr_projr_plain)
  have "\<not> isl (item_model ?z [] JUndefined ?w2)" by code_simp
  then have m3: "item_model ?z [] JUndefined ?w2 = Inr ?m3"
    by (rule Inr_projr_plain)
  have id1: "Model_id (idKey (resource example_world)) ?m1 = JStr ''1''" by code_simp
  have id2: "Model_id (idKey (resource example_world)) ?m2 = JStr ''1''" by code_simp
  have id2': "Model_id (idKey (resource ?w1)) ?m2 = JStr ''1''" by code_simp
  have id3: "Model_id (idKey (resource ?w1)) ?m3 = JStr ''1''" by code_simp
  have s: "''1'' \<noteq> []" by simp
  have gps: "model_cacheKey (idKey (resource example_world)) ?m1
             = model_cacheKey (idKey (resource example_world)) ?m2"
    by code_simp
  have gps': "model_cacheKey (idKey (resource ?w1)) ?m2 = model_cacheKey (idKey (resource ?w1)) ?m3"
    by code_simp
  have alloc: "?r1 < next_ref ?w1" by code_simp
  have alloc': "?r2 < next_ref ?w2" by code_simp
  note t = addModel_same_identity [OF first second m1 m2 id1 id2 s gps alloc]
  note u = addModel_same_identity [OF second third m2 m3 id2' id3 s gps' alloc']
  have n: "getCache (Resource.models (resource example_world)) JUndefined
             (model_cacheKey (idKey (resource example_world)) ?m1) = None"
    by code_simp
  have v: "assign_one (attributes ?m1) (attributes ?m2)
           = [(''id'', JStr ''1''), (''a'', JNum 1), (''b'', JNum 2)]"
    by code_simp
  have g1: "?r2 = ?r1" using t by blast
  have g2: "attributes (heap ?w2 ?r1) = [(''id'', JStr ''1''), (''a'', JNum 1), (''b'', JNum 2)]"
    using t [THEN conjunct2, THEN conjunct2, THEN conjunct2, THEN conjunct1, THEN mp, OF n] v
    by simp
  have h: "getCache (Resource.models (resource ?w1)) JUndefined
             (model_cacheKey (idKey (resource ?w1)) ?m2) = Some 2 \<and> 2 < next_ref ?w1"
    by code_simp
  have v': "assign_one (assign_one (attributes (heap ?w1 2)) (attributes ?m2)) (attributes ?m3)
            = [(''id'', JStr ''1''), (''a'', JNum 1), (''b'', JNum 2), (''c'', JNum 3)]"
    by code_simp
  have g3: "fst (projr third_insertion) = ?r2" using u by blast
  have g4: "attributes (heap (snd (projr third_insertion)) ?r2)
            = [(''id'', JStr ''1''), (''a'', JNum 1), (''b'', JNum 2), (''c'', JNum 3)]"
    using u [THEN conjunct2, THEN conjunct2, THEN conjunct2, THEN conjunct2, THEN spec,
             THEN mp, OF h] v'
    by simp
  let ?mu = "projr (item_model ?y [(''lang'', JUndefined)] JUndefined ?w1)"
  have "\<not> isl undefined_param_insertion" by code_simp
  then have up: "addModel ?y [(''lang'', JUndefined)] JUndefined ?w1
                 = Inr (fst (projr undefined_param_insertion),
                        snd (projr undefined_param_insertion))"
    using Inr_projr [of undefined_param_insertion] by (simp add: undefined_param_insertion_def)
  have "\<not> isl (item_model ?y [(''lang'', JUndefined)] JUndefined ?w1)" by code_simp
  then have mu: "item_model ?y [(''lang'', JUndefined)] JUndefined ?w1 = Inr ?mu"
    by (rule Inr_projr_plain)
  have idu: "Model_id (idKey (resource example_world)) ?mu = JStr ''1''" by code_simp
  have keyu: "model_cacheKey (idKey (resource example_world)) ?m1
              = model_cacheKey (idKey (resource example_world)) ?mu"
    by code_simp
  have g5: "fst (projr undefined_param_insertion) = ?r1"
    using addModel_same_identity [OF first up m1 mu id1 idu s keyu alloc] by blast
  from g1 g2 g3 g4 g5 show ?thesis by (intro conjI)
qed

text \<open>
  The claim as it is written fails: the two insertions below are of data with the identity
  \<open>1\<close> into the default cache, the second with other GET parameters. They return
  different references, and the cache then holds two Models with the identity \<open>"1"\<close>.
\<close>

theorem addModel_other_params_counterexample:
  "fst (projr first_insertion) = 2
   \<and> fst (projr other_params_insertion) = 3
   \<and> Model_id ''id'' (heap (snd (projr other_params_insertion)) 2) = JStr ''1''
   \<and> Model_id ''id'' (heap (snd (projr other_params_insertion)) 3) = JStr ''1''
   \<and> getCache (Resource.models (resource (snd (projr other_params_insertion)))) JUndefined
       ''{\"id\":\"1\"}'' = Some 2
   \<and> getCache (Resource.models (resource (snd (projr other_params_insertion)))) JUndefined
       ''{\"fields\":\"b\",\"id\":\"1\"}'' = Some 3"
  by code_simp


section \<open>The members of a Collection\<close>

lemma map_of_assign_one:
  "map_of (assign_one target source) k
   = (case map_of (rev source) k of None \<Rightarrow> map_of target k | Some v \<Rightarrow> Some v)"
  unfolding assign_one_def
proof (induction source arbitrary: target)
  case Nil
  show ?case by simp
next
  case (Cons p source)
  show ?case
    by (cases "map_of (rev source) k")
       (simp_all add: Cons.IH map_of_obj_set map_of_append map_add_def)
qed

lemma obj_get_assign_one:
  assumes "distinct (Object_keys source)" and "obj_get source k = JStr s"
  shows "obj_get (assign_one target source) k = JStr s"
proof -
  have d: "distinct (map fst source)" using assms(1) by (simp add: Object_keys_def)
  have "map_of (rev source) = map_of source"
    using d by (simp add: map_of_inject_set distinct_rev rev_map [symmetric])
  then show ?thesis
    using assms(2) by (simp add: obj_get_def map_of_assign_one split: option.splits)
qed

lemma Model_set_object:
  "\<exists>a m'. Model_set idk (JObj ps) m = Inr (a, m')"
  by (simp add: Model_set_def Let_def is_object_def)

lemma addModel_instance_total: "\<exists>r' w'. addModel_instance r en w = Inr (r', w')"
proof -
  obtain a m' where "Model_set (idKey (resource w)) (JObj (attributes (heap w r)))
       (heap w (the (getCache (Resource.models (resource w)) en
                  (model_cacheKey (idKey (resource w)) (heap w r))))) = Inr (a, m')"
    using Model_set_object by blast
  then show ?thesis
    by (auto simp: addModel_instance_def Let_def split: option.splits)
qed

lemma addModel_of_item_model:
  assumes "item_model x gp en w = Inr m"
  shows "\<exists>r w1. addModel x gp en w = Inr (r, w1)"
proof (cases x)
  case (Data d)
  with assms show ?thesis
    using addModel_instance_total by (simp add: addModel_def item_model_def createModel_def)
next
  case (Instance r)
  then show ?thesis
    using addModel_instance_total by (simp add: addModel_def)
qed

text \<open>
  The insertion of a Model with an identity into a slot that holds a Model: the insertion
  returns the Model of the slot, with the attributes of the inserted one merged into its
  own, so that it has the identity of the inserted one.
\<close>

lemma addModel_merges:
  assumes add: "addModel x gp en w = Inr (r, w1)"
    and m: "item_model x gp en w = Inr m"
    and ident: "Model_id (idKey (resource w)) m = JStr s" and s: "s \<noteq> []"
    and slot: "getCache (Resource.models (resource w)) en (model_cacheKey (idKey (resource w)) m)
               = Some r0"
    and alloc: "r0 < next_ref w"
  shows "r = r0 \<and> attributes (heap w1 r0) = assign_one (attributes (heap w r0)) (attributes m)
         \<and> idKey (resource w1) = idKey (resource w)"
proof -
  from addModel_as_instance [OF add m]
  obtain rb wb where ib: "addModel_instance rb en wb = Inr (r, w1)"
    and hb: "heap wb rb = m" and rb: "resource wb = resource w"
    and old: "\<forall>r'. r' < next_ref w \<longrightarrow> r' \<noteq> rb \<longrightarrow> heap wb r' = heap w r'"
    and which: "x = Instance rb \<and> wb = w \<or> rb = next_ref w \<and> next_ref wb = Suc (next_ref w)"
    by blast
  have idb: "Model_id (idKey (resource wb)) (heap wb rb) = JStr s"
    using ident hb rb by simp
  have cb: "getCache (Resource.models (resource wb)) en
              (model_cacheKey (idKey (resource wb)) (heap wb rb)) = Some r0"
    using slot hb rb by simp
  from addModel_instance_identity(5) [OF ib idb s cb]
  have r: "r = r0"
    and h: "heap w1 = (heap wb)(r0 := (heap wb r0)\<lparr>attributes :=
               assign_one (attributes (heap wb r0)) (attributes (heap wb rb))\<rparr>)"
    by simp_all
  from addModel_instance_identity(2) [OF ib idb s]
  have k: "idKey (resource w1) = idKey (resource w)" using rb by simp
  have same: "heap wb r0 = heap w r0"
  proof (cases "wb = w")
    case True
    then show ?thesis by simp
  next
    case False
    with which have "rb = next_ref w" by blast
    with alloc have "r0 \<noteq> rb" by simp
    with old alloc show ?thesis by blast
  qed
  from r h same hb k show ?thesis by simp
qed

lemma addModel_identity:
  assumes add: "addModel x gp en w = Inr (r, w1)"
    and m: "item_model x gp en w = Inr m"
    and ident: "Model_id (idKey (resource w)) m = JStr s" and s: "s \<noteq> []"
    and keys: "distinct (Object_keys (attributes m))"
  shows "Model_id (idKey (resource w1)) (heap w1 r) = JStr s"
proof -
  from addModel_as_instance [OF add m]
  obtain rb wb where ib: "addModel_instance rb en wb = Inr (r, w1)"
    and hb: "heap wb rb = m" and rb: "resource wb = resource w"
    by blast
  have idb: "Model_id (idKey (resource wb)) (heap wb rb) = JStr s"
    using ident hb rb by simp
  from addModel_instance_identity(2) [OF ib idb s]
  have k: "idKey (resource w1) = idKey (resource w)" using rb by simp
  have g: "obj_get (attributes m) (idKey (resource w)) = JStr s"
    using ident by (simp add: Model_id_def)
  show ?thesis
  proof (cases "getCache (Resource.models (resource wb)) en
                  (model_cacheKey (idKey (resource wb)) (heap wb rb))")
    case None
    from addModel_instance_identity(4) [OF ib idb s None]
    show ?thesis using hb k ident by simp
  next
    case (Some r0)
    from addModel_instance_identity(5) [OF ib idb s Some]
    have "r = r0"
      and "heap w1 = (heap wb)(r0 := (heap wb r0)\<lparr>attributes :=
             assign_one (attributes (heap wb r0)) (attributes (heap wb rb))\<rparr>)"
      by simp_all
    then show ?thesis
      using hb k obj_get_assign_one [OF keys g] by (simp add: Model_id_def)
  qed
qed

text \<open>
  An element whose identity is the name of a property of \<^verbatim>\<open>Object.prototype\<close> never
  becomes a member: the index, a plain object, reads as if it held the name.
\<close>

lemma Collection_set_inherited_name:
  assumes m: "item_model x (Collection_set_getParams c) JUndefined w = Inr m"
    and ident: "Model_id (idKey (resource w)) m = JStr s"
    and keys: "distinct (Object_keys (attributes m))"
    and name: "s \<in> set Object_prototype_keys"
  shows "\<exists>w'. Collection_set (Array [x]) (c, w) = (None, c, w')"
proof -
  have s: "s \<noteq> []" using name by (auto simp: Object_prototype_keys_def)
  from addModel_of_item_model [OF m]
  obtain r w1 where add: "addModel x (Collection_set_getParams c) JUndefined w = Inr (r, w1)"
    by blast
  from addModel_identity [OF add m ident s keys]
  have "member_key (idKey (resource w1)) (heap w1 r) = s"
    using s by (simp add: member_key_def)
  then have "Collection_set (Array [x]) (c, w) = (None, c, w1)"
    using add name by (simp add: Collection_set_def modelsToSet_def Let_def model_map_truthy_def)
  then show ?thesis by blast
qed

lemma set_inherited_names_members:
  "fst set_inherited_names = None
   \<and> Collection.models (fst (snd set_inherited_names)) = [4]
   \<and> Model_id ''id'' (heap (snd (snd set_inherited_names)) 4) = JStr ''plain''
   \<and> next_ref (snd (snd set_inherited_names)) = 5"
  by code_simp

text \<open>
  When the Resource returns, for an element with the identity \<open>s\<close>, a Model that is a
  member already and that the index does not hold under \<open>s\<close>, \<^verbatim>\<open>set\<close> merges the
  attributes of the element into the Model and makes it a member once more.
\<close>

lemma Collection_set_inserts_member_again:
  assumes m: "item_model x (Collection_set_getParams c) JUndefined w = Inr m"
    and ident: "Model_id (idKey (resource w)) m = JStr s" and s: "s \<noteq> []"
    and keys: "distinct (Object_keys (attributes m))"
    and slot: "getCache (Resource.models (resource w)) JUndefined
                 (model_cacheKey (idKey (resource w)) m) = Some r"
    and alloc: "r < next_ref w"
    and unrecorded: "\<not> model_map_truthy (model_map c) s"
  shows "\<exists>w'. Collection_set (Array [x]) (c, w)
               = (None,
                  c\<lparr>Collection.models := Collection.models c @ [r],
                    model_map := (model_map c)(s \<mapsto> r)\<rparr>, w')
             \<and> attributes (heap w' r) = assign_one (attributes (heap w r)) (attributes m)"
proof -
  let ?gp = "Collection_set_getParams c"
  from addModel_of_item_model [OF m]
  obtain r1 w1 where add: "addModel x ?gp JUndefined w = Inr (r1, w1)" by blast
  from addModel_merges [OF add m ident s slot alloc]
  have r: "r1 = r"
    and a: "attributes (heap w1 r) = assign_one (attributes (heap w r)) (attributes m)"
    by simp_all
  from addModel_identity [OF add m ident s keys]
  have key: "member_key (idKey (resource w1)) (heap w1 r) = s"
    using s r by (simp add: member_key_def)
  have "Collection_set (Array [x]) (c, w)
        = (None,
           c\<lparr>Collection.models := Collection.models c @ [r],
             model_map := (model_map c)(s \<mapsto> r)\<rparr>, w1)"
    using add r key unrecorded
    by (simp add: Collection_set_def modelsToSet_def Let_def)
  then show ?thesis using a by blast
qed

text \<open>
  Claim C5. The code does not keep the members of a Collection apart by their dedup keys,
  and it does not give every dedup key of the input an entry of the index.
  \<^verbatim>\<open>set\<close> records a member under the key that the Model has when it becomes a member
  (its identity string, or the hash of its attributes), and it decides whether to insert
  the Model that \<^verbatim>\<open>addModel\<close> returns for an element by looking up, in a plain object,
  the key that this Model has now. Let an element have the identity \<open>s\<close>. When the
  Resource returns for it a Model that is a member already and that the index does not hold
  under \<open>s\<close> (it became a member before it had this identity), the attributes of the
  element are merged into the Model and the Model is made a member once more: the list of
  members then holds the same Model twice, and the index holds it under two keys. And
  when \<open>s\<close> is the name of a property that every object inherits, the index reads as if
  it held \<open>s\<close>, and the Collection stays as it is: the element never becomes a member.
\<close>

theorem Collection_set_member_twice:
  assumes m: "item_model x (Collection_set_getParams c) JUndefined w = Inr m"
    and ident: "Model_id (idKey (resource w)) m = JStr s"
    and keys: "distinct (Object_keys (attributes m))"
  shows "(s \<noteq> []
          \<and> getCache (Resource.models (resource w)) JUndefined
               (model_cacheKey (idKey (resource w)) m) = Some r
          \<and> r < next_ref w \<and> r \<in> set (Collection.models c)
          \<and> \<not> model_map_truthy (model_map c) s \<longrightarrow>
            (\<exists>w'. Collection_set (Array [x]) (c, w)
                   = (None,
                      c\<lparr>Collection.models := Collection.models c @ [r],
                        model_map := (model_map c)(s \<mapsto> r)\<rparr>, w')
                 \<and> attributes (heap w' r) = assign_one (attributes (heap w r)) (attributes m)
                 \<and> \<not> distinct (Collection.models c @ [r])))
       \<and> (s \<in> set Object_prototype_keys \<longrightarrow>
            (\<exists>w'. Collection_set (Array [x]) (c, w) = (None, c, w')))"
proof (intro conjI impI)
  assume h: "s \<noteq> []
          \<and> getCache (Resource.models (resource w)) JUndefined
               (model_cacheKey (idKey (resource w)) m) = Some r
          \<and> r < next_ref w \<and> r \<in> set (Collection.models c)
          \<and> \<not> model_map_truthy (model_map c) s"
  then have s: "s \<noteq> []"
    and slot: "getCache (Resource.models (resource w)) JUndefined
                 (model_cacheKey (idKey (resource w)) m) = Some r"
    and alloc: "r < next_ref w" and member: "r \<in> set (Collection.models c)"
    and unrecorded: "\<not> model_map_truthy (model_map c) s"
    by simp_all
  from Collection_set_inserts_member_again [OF m ident s keys slot alloc unrecorded]
  obtain w' where "Collection_set (Array [x]) (c, w)
               = (None,
                  c\<lparr>Collection.models := Collection.models c @ [r],
                    model_map := (model_map c)(s \<mapsto> r)\<rparr>, w')"
    and "attributes (heap w' r) = assign_one (attributes (heap w r)) (attributes m)"
    by blast
  moreover have "\<not> distinct (Collection.models c @ [r])" using member by simp
  ultimately show "\<exists>w'. Collection_set (Array [x]) (c, w)
                   = (None,
                      c\<lparr>Collection.models := Collection.models c @ [r],
                        model_map := (model_map c)(s \<mapsto> r)\<rparr>, w')
                 \<and> attributes (heap w' r) = assign_one (attributes (heap w r)) (attributes m)
                 \<and> \<not> distinct (Collection.models c @ [r])"
    by blast
next
  assume "s \<in> set Object_prototype_keys"
  from Collection_set_inherited_name [OF m ident keys this]
  show "\<exists>w'. Collection_set (Array [x]) (c, w) = (None, c, w')" .
qed

theorem Collection_set_member_twice_witness:
  "fst set_saved_member = None
   \<and> Collection.models (fst (snd unsaved_member)) = [2]
   \<and> Collection.models (fst (snd set_saved_member)) = [2, 2]
   \<and> attributes (heap (snd (snd set_saved_member)) 2) = [(''name'', JStr ''a''), (''id'', JStr ''5'')]
   \<and> (\<exists>w'. Collection_set (Array [Data (JObj [(''id'', JStr ''constructor'')])])
               (empty_collection, example_world) = (None, empty_collection, w'))"
proof -
  let ?x = "Data (JObj [(''id'', JNum 5), (''name'', JStr ''a'')])"
  let ?c = "fst (snd unsaved_member)"
  let ?w = "saved_member_world"
  let ?m = "projr (item_model ?x (Collection_set_getParams ?c) JUndefined ?w)"
  have "\<not> isl (item_model ?x (Collection_set_getParams ?c) JUndefined ?w)" by code_simp
  then have m: "item_model ?x (Collection_set_getParams ?c) JUndefined ?w = Inr ?m"
    by (rule Inr_projr_plain)
  have ident: "Model_id (idKey (resource ?w)) ?m = JStr ''5''" by code_simp
  have keys: "distinct (Object_keys (attributes ?m))" by code_simp
  have before: "Collection.models ?c = [2]" by code_simp
  have h: "''5'' \<noteq> []
          \<and> getCache (Resource.models (resource ?w)) JUndefined
               (model_cacheKey (idKey (resource ?w)) ?m) = Some 2
          \<and> 2 < next_ref ?w \<and> 2 \<in> set (Collection.models ?c)
          \<and> \<not> model_map_truthy (model_map ?c) ''5''"
    by code_simp
  from Collection_set_member_twice [OF m ident keys, THEN conjunct1, THEN mp, OF h]
  obtain w' where run: "Collection_set (Array [?x]) (?c, ?w)
               = (None,
                  ?c\<lparr>Collection.models := Collection.models ?c @ [2],
                     model_map := (model_map ?c)(''5'' \<mapsto> 2)\<rparr>, w')"
    and a: "attributes (heap w' 2) = assign_one (attributes (heap ?w 2)) (attributes ?m)"
    by blast
  have v: "assign_one (attributes (heap ?w 2)) (attributes ?m)
           = [(''name'', JStr ''a''), (''id'', JStr ''5'')]"
    by code_simp
  from run have e: "set_saved_member
               = (None,
                  ?c\<lparr>Collection.models := Collection.models ?c @ [2],
                     model_map := (model_map ?c)(''5'' \<mapsto> 2)\<rparr>, w')"
    by (simp add: set_saved_member_def)
  have g1: "fst set_saved_member = None" unfolding e by simp
  have g3: "Collection.models (fst (snd set_saved_member)) = [2, 2]"
    unfolding e using before by simp
  have g4: "attributes (heap (snd (snd set_saved_member)) 2)
            = [(''name'', JStr ''a''), (''id'', JStr ''5'')]"
    unfolding e using a v by simp
  let ?y = "Data (JObj [(''id'', JStr ''constructor'')])"
  let ?n = "projr (item_model ?y (Collection_set_getParams empty_collection) JUndefined
                     example_world)"
  have "\<not> isl (item_model ?y (Collection_set_getParams empty_collection) JUndefined
                  example_world)"
    by code_simp
  then have n: "item_model ?y (Collection_set_getParams empty_collection) JUndefined
                  example_world = Inr ?n"
    by (rule Inr_projr_plain)
  have identn: "Model_id (idKey (resource example_world)) ?n = JStr ''constructor''"
    by code_simp
  have keysn: "distinct (Object_keys (attributes ?n))" by code_simp
  have name: "''constructor'' \<in> set Object_prototype_keys" by code_simp
  note g5 = Collection_set_member_twice [OF n identn keysn, THEN conjunct2, THEN mp, OF name]
  from g1 before g3 g4 g5 show ?thesis by (intro conjI)
qed


section \<open>\<^verbatim>\<open>Model.set\<close> and the object of its caller\<close>

lemma erase_elems_map: "erase_elems xs = map erase xs"
  by (induction xs) simp_all

lemma erase_props_map: "erase_props ps = map (\<lambda>p. (fst p, erase (snd p))) ps"
  by (induction ps) simp_all

lemma addrs_elems_Union: "addrs_elems xs = (\<Union>x\<in>set xs. addrs x)"
  by (induction xs) simp_all

lemma addrs_props_Union: "addrs_props ps = (\<Union>p\<in>set ps. addrs (snd p))"
  by (induction ps) simp_all

lemma cloneDeep_mono:
  "n \<le> snd (cloneDeep n x)"
  "n \<le> snd (cloneDeep_elems n xs)"
  "n \<le> snd (cloneDeep_props n ps)"
proof (induction n x and n xs and n ps rule: cloneDeep_cloneDeep_elems_cloneDeep_props.induct)
  case (6 n a xs)
  then show ?case by (simp add: Let_def)
next
  case (7 n a ps)
  then show ?case by (simp add: Let_def)
next
  case (9 n x xs)
  then show ?case by (auto simp: Let_def intro: le_trans)
next
  case (11 n p ps)
  then show ?case by (auto simp: Let_def intro: le_trans)
qed simp_all

lemma cloneDeep_fresh:
  "addrs (fst (cloneDeep n x)) \<subseteq> {n ..< snd (cloneDeep n x)}"
  "addrs_elems (fst (cloneDeep_elems n xs)) \<subseteq> {n ..< snd (cloneDeep_elems n xs)}"
  "addrs_props (fst (cloneDeep_props n ps)) \<subseteq> {n ..< snd (cloneDeep_props n ps)}"
proof (induction n x and n xs and n ps rule: cloneDeep_cloneDeep_elems_cloneDeep_props.induct)
  case (6 n a xs)
  have "Suc n \<le> snd (cloneDeep_elems (Suc n) xs)" by (rule cloneDeep_mono)
  with 6 show ?case by (auto simp: Let_def)
next
  case (7 n a ps)
  have "Suc n \<le> snd (cloneDeep_props (Suc n) ps)" by (rule cloneDeep_mono)
  with 7 show ?case by (auto simp: Let_def)
next
  case (9 n x xs)
  have a: "n \<le> snd (cloneDeep n x)" by (rule cloneDeep_mono)
  have b: "snd (cloneDeep n x) \<le> snd (cloneDeep_elems (snd (cloneDeep n x)) xs)"
    by (rule cloneDeep_mono)
  from 9 a b show ?case by (fastforce simp: Let_def)
next
  case (11 n p ps)
  have a: "n \<le> snd (cloneDeep n (snd p))" by (rule cloneDeep_mono)
  have b: "snd (cloneDeep n (snd p)) \<le> snd (cloneDeep_props (snd (cloneDeep n (snd p))) ps)"
    by (rule cloneDeep_mono)
  from 11 a b show ?case by (fastforce simp: Let_def)
qed simp_all

lemma erase_cloneDeep:
  "erase (fst (cloneDeep n x)) = erase x"
  "erase_elems (fst (cloneDeep_elems n xs)) = erase_elems xs"
  "erase_props (fst (cloneDeep_props n ps)) = erase_props ps"
  by (induction n x and n xs and n ps rule: cloneDeep_cloneDeep_elems_cloneDeep_props.induct)
     (simp_all add: Let_def)

lemma mutate_other:
  "a \<notin> addrs x \<Longrightarrow> mutate a f x = x"
  "a \<notin> addrs_elems xs \<Longrightarrow> mutate_elems a f xs = xs"
  "a \<notin> addrs_props ps \<Longrightarrow> mutate_props a f ps = ps"
  by (induction a f x and a f xs and a f ps rule: mutate_mutate_elems_mutate_props.induct)
     auto

lemma set_obj_set_subset: "set (obj_set k v ps) \<subseteq> insert (k, v) (set ps)"
  by (induction ps) (auto split: if_splits)

lemma set_assign_one_subset: "set (assign_one cur ps) \<subseteq> set cur \<union> set ps"
  unfolding assign_one_def
proof (induction ps arbitrary: cur)
  case Nil
  show ?case by simp
next
  case (Cons p ps)
  have "set (fold (\<lambda>p. obj_set (fst p) (snd p)) ps (obj_set (fst p) (snd p) cur))
        \<subseteq> set (obj_set (fst p) (snd p) cur) \<union> set ps"
    by (rule Cons.IH)
  also have "\<dots> \<subseteq> insert p (set cur) \<union> set ps"
    using set_obj_set_subset [of "fst p" "snd p" cur] by auto
  finally show ?case by auto
qed

lemma addrs_props_assign_one:
  "addrs_props (assign_one cur ps) \<subseteq> addrs_props cur \<union> addrs_props ps"
  using set_assign_one_subset [of cur ps] by (auto simp: addrs_props_Union)

lemma addrs_props_array_props: "addrs_props (array_props xs) \<subseteq> addrs_elems xs"
  by (auto simp: addrs_props_Union addrs_elems_Union array_props_def dest: set_zip_rightD)

lemma addrs_heap_own_props: "addrs_props (heap_own_props v) \<subseteq> addrs v"
  using addrs_props_array_props by (cases v) (auto simp: heap_own_props_def)

lemma addrs_heap_set_prop: "addrs (heap_set_prop v k x) \<subseteq> addrs v \<union> addrs x"
proof (cases v)
  case (HArr a xs)
  have "set (xs[nat (parse_index k) := x]) \<subseteq> insert x (set xs)"
    by (rule set_update_subset_insert)
  then show ?thesis
    using HArr by (auto simp: heap_set_prop_def addrs_elems_Union)
next
  case (HObj a ps)
  then show ?thesis
    using set_obj_set_subset [of k x ps]
    by (auto simp: heap_set_prop_def addrs_props_Union)
qed (simp_all add: heap_set_prop_def)

lemma map_obj_set:
  "map (\<lambda>p. (fst p, g (snd p))) (obj_set k v ps)
   = obj_set k (g v) (map (\<lambda>p. (fst p, g (snd p))) ps)"
proof (induction ps)
  case Nil
  show ?case by simp
next
  case (Cons p ps)
  have "fst ` (\<lambda>p. (fst p, g (snd p))) ` set ps = fst ` set ps"
    by (simp add: image_image)
  with Cons show ?case by (cases p) simp
qed

lemma map_assign_one:
  "map (\<lambda>p. (fst p, g (snd p))) (assign_one cur ps)
   = assign_one (map (\<lambda>p. (fst p, g (snd p))) cur) (map (\<lambda>p. (fst p, g (snd p))) ps)"
  unfolding assign_one_def
  by (induction ps arbitrary: cur) (simp_all add: map_obj_set)

lemma erase_props_assign_one:
  "erase_props (assign_one cur ps) = assign_one (erase_props cur) (erase_props ps)"
  by (simp add: erase_props_map map_assign_one)

lemma erase_props_array_props: "erase_props (array_props xs) = array_props (erase_elems xs)"
  by (simp add: erase_props_map erase_elems_map array_props_def zip_map2 case_prod_beta)

lemma erase_heap_own_props: "erase_props (heap_own_props v) = own_props (erase v)"
  by (cases v) (simp_all add: heap_own_props_def own_props_def erase_props_array_props)

lemma obj_has_array_props_erase:
  "obj_has (array_props (erase_elems xs)) k = obj_has (array_props xs) k"
proof -
  have "map fst (array_props ys) = map (\<lambda>i. show_nat i) [0 ..< length ys]" for ys :: "'b list"
    by (simp add: array_props_def)
  then have keys: "fst ` set (array_props ys) = set (map (\<lambda>i. show_nat i) [0 ..< length ys])"
    for ys :: "'b list"
    by (metis set_map)
  show ?thesis
    unfolding obj_has_def keys by (simp add: erase_elems_map)
qed

lemma erase_heap_set_prop:
  "erase (heap_set_prop v k x) = set_prop (erase v) k (erase x)"
proof (cases v)
  case (HArr a xs)
  then show ?thesis
    by (simp add: heap_set_prop_def set_prop_def obj_has_array_props_erase)
       (simp add: erase_elems_map map_update)
next
  case (HObj a ps)
  then show ?thesis
    by (simp add: heap_set_prop_def set_prop_def erase_props_map map_obj_set)
qed (simp_all add: heap_set_prop_def set_prop_def)

lemma falsy_own_props: "\<not> truthy v \<Longrightarrow> own_props v = []"
  by (cases v) (simp_all add: own_props_def)

lemma assign_one_Nil: "assign_one cur [] = cur"
  by (simp add: assign_one_def)




end
